theory Spec2Isabelle
  imports Main "HOL-Library.AList" "HOL-Library.Sublist"
begin

section \<open>Python values used by the generator scripts\<close>

text \<open>
  A Python \<open>str\<close> is represented by the bytes of its UTF-8 encoding, as a \<open>string\<close>.
  All separators and prefixes the scripts search for are ASCII, and an ASCII byte never
  occurs inside a multi-byte UTF-8 sequence, so \<open>split\<close>, \<open>startswith\<close>, \<open>rfind\<close> and
  concatenation act on this representation as they do on the code points.
\<close>

datatype error =
    FileNotFoundError
  | FileExistsError
  | NotADirectoryError
  | IsADirectoryError
  | UnicodeEncodeError
  | ImportError
  | ModuleNotFoundError
  | IndexError
  | KeyError
  | OtherError string

text \<open>The two \<open>except\<close> clauses of the code base: which exceptions a class catches.\<close>

fun is_OSError :: "error \<Rightarrow> bool" where
  "is_OSError FileNotFoundError = True"
| "is_OSError FileExistsError = True"
| "is_OSError NotADirectoryError = True"
| "is_OSError IsADirectoryError = True"
| "is_OSError _ = False"


text \<open>\<open>s.split(sep)\<close> for a one-character separator: never an empty list.\<close>

fun str_split :: "char \<Rightarrow> string \<Rightarrow> string list" where
  "str_split sep [] = [[]]"
| "str_split sep (c # cs) =
     (if c = sep then [] # str_split sep cs
      else (case str_split sep cs of
              [] \<Rightarrow> [[c]]
            | x # xs \<Rightarrow> (c # x) # xs))"

text \<open>\<open>s.startswith(p)\<close>.\<close>

definition startswith :: "string \<Rightarrow> string \<Rightarrow> bool" where
  "startswith s p = (take (length p) s = p)"

text \<open>\<open>xs[i]\<close>: a negative index counts from the end, an index out of range raises.\<close>

definition py_index :: "'a list \<Rightarrow> int \<Rightarrow> error + 'a" where
  "py_index xs i =
     (let n = int (length xs);
          j = (if i < 0 then i + n else i)
      in if j < 0 \<or> n \<le> j then Inl IndexError else Inr (xs ! nat j))"

text \<open>\<open>str(n)\<close> and the format specification \<open>{n:02d}\<close> for integers.\<close>

fun digits :: "nat \<Rightarrow> string" where
  "digits n =
     (if n < 10 then [''0123456789'' ! n]
      else digits (n div 10) @ [''0123456789'' ! (n mod 10)])"

declare digits.simps [simp del]

definition str_int :: "int \<Rightarrow> string" where
  "str_int i = (if i < 0 then ''-'' else '''') @ digits (nat \<bar>i\<bar>)"

definition format_02d :: "int \<Rightarrow> string" where
  "format_02d i =
     (let sign = (if i < 0 then ''-'' else '''');
          ds = digits (nat \<bar>i\<bar>)
      in sign @ replicate (2 - length sign - length ds) CHR ''0'' @ ds)"

text \<open>The check mark U+2713 and the bullet U+2022 of the progress messages, in UTF-8.\<close>

definition check_mark :: string where
  "check_mark = [CHR 0xE2, CHR 0x9C, CHR 0x93]"

definition bullet :: string where
  "bullet = [CHR 0xE2, CHR 0x80, CHR 0xA2]"

section \<open>FINAL\_GENERATOR.py: the progress message of \<open>write_file\<close>\<close>

text \<open>
  \<^verbatim>\<open>
    parts = path.split('/')
    topic = parts[-3] if len(parts) >= 3 else ''
    level = parts[-2] if len(parts) >= 2 else ''
    print(f"  <check> {topic}/{level}")
  \<close>
  The two subscripts are modelled as the fallible accesses they are.
\<close>

definition progress_message :: "string \<Rightarrow> error + string" where
  "progress_message path =
     (let parts = str_split CHR ''/'' path in
      case (if 3 \<le> length parts then py_index parts (- 3) else Inr '''') of
        Inl e \<Rightarrow> Inl e
      | Inr topic \<Rightarrow>
          (case (if 2 \<le> length parts then py_index parts (- 2) else Inr '''') of
             Inl e \<Rightarrow> Inl e
           | Inr level \<Rightarrow> Inr (''  '' @ check_mark @ '' '' @ topic @ ''/'' @ level)))"

section \<open>generate\_comprehensive\_theory.py: the topic table\<close>

text \<open>
  The values that occur in the topic dictionaries, and a dictionary literal as the list
  of its items in source order; \<open>d[k]\<close> raises \<open>KeyError\<close> on a missing key and
  \<open>d.get(k, default)\<close> returns the default.
\<close>

datatype pyval = Str string | Bool bool

type_synonym pydict = "(string \<times> pyval) list"

definition TOPICS :: "pydict list" where
  "TOPICS = [
    [(''num'', Str ''01''),
     (''name'', Str ''basics_and_syntax''),
     (''title'', Str ''Basics and Syntax''),
     (''needs_intermediate'', Bool True),
     (''needs_advanced'', Bool True)],
    [(''num'', Str ''02''),
     (''name'', Str ''data_types_and_variables''),
     (''title'', Str ''Data Types and Variables''),
     (''needs_intermediate'', Bool True),
     (''needs_advanced'', Bool True)],
    [(''num'', Str ''03''),
     (''name'', Str ''operators_and_expressions''),
     (''title'', Str ''Operators and Expressions''),
     (''needs_intermediate'', Bool True),
     (''needs_advanced'', Bool True)],
    [(''num'', Str ''04''),
     (''name'', Str ''control_flow''),
     (''title'', Str ''Control Flow''),
     (''needs_intermediate'', Bool True),
     (''needs_advanced'', Bool True)],
    [(''num'', Str ''05''),
     (''name'', Str ''functions''),
     (''title'', Str ''Functions''),
     (''needs_intermediate'', Bool True),
     (''needs_advanced'', Bool True)],
    [(''num'', Str ''06''),
     (''name'', Str ''arrays_and_slices''),
     (''title'', Str ''Arrays and Slices''),
     (''needs_intermediate'', Bool True),
     (''needs_advanced'', Bool True)],
    [(''num'', Str ''07''),
     (''name'', Str ''maps''),
     (''title'', Str ''Maps''),
     (''needs_intermediate'', Bool True),
     (''needs_advanced'', Bool True)],
    [(''num'', Str ''08''),
     (''name'', Str ''structs''),
     (''title'', Str ''Structs''),
     (''needs_intermediate'', Bool True),
     (''needs_advanced'', Bool True)],
    [(''num'', Str ''09''),
     (''name'', Str ''pointers''),
     (''title'', Str ''Pointers''),
     (''needs_intermediate'', Bool True),
     (''needs_advanced'', Bool True)],
    [(''num'', Str ''10''),
     (''name'', Str ''methods_and_interfaces''),
     (''title'', Str ''Methods and Interfaces''),
     (''needs_intermediate'', Bool True),
     (''needs_advanced'', Bool True)],
    [(''num'', Str ''11''),
     (''name'', Str ''error_handling''),
     (''title'', Str ''Error Handling''),
     (''needs_intermediate'', Bool True),
     (''needs_advanced'', Bool True)],
    [(''num'', Str ''12''),
     (''name'', Str ''packages_and_modules''),
     (''title'', Str ''Packages and Modules''),
     (''needs_intermediate'', Bool True),
     (''needs_advanced'', Bool True)],
    [(''num'', Str ''13''),
     (''name'', Str ''concurrency''),
     (''title'', Str ''Concurrency''),
     (''needs_intermediate'', Bool True),
     (''needs_advanced'', Bool True)],
    [(''num'', Str ''14''),
     (''name'', Str ''channels''),
     (''title'', Str ''Channels''),
     (''needs_intermediate'', Bool True),
     (''needs_advanced'', Bool True)],
    [(''num'', Str ''15''),
     (''name'', Str ''file_io''),
     (''title'', Str ''File I/O''),
     (''needs_intermediate'', Bool True),
     (''needs_advanced'', Bool True)],
    [(''num'', Str ''16''),
     (''name'', Str ''testing''),
     (''title'', Str ''Testing''),
     (''needs_intermediate'', Bool True),
     (''needs_advanced'', Bool True)],
    [(''num'', Str ''17''),
     (''name'', Str ''reflection''),
     (''title'', Str ''Reflection''),
     (''needs_intermediate'', Bool True),
     (''needs_advanced'', Bool True)],
    [(''num'', Str ''18''),
     (''name'', Str ''generics''),
     (''title'', Str ''Generics''),
     (''needs_intermediate'', Bool True),
     (''needs_advanced'', Bool True)],
    [(''num'', Str ''19''),
     (''name'', Str ''memory_management''),
     (''title'', Str ''Memory Management''),
     (''needs_intermediate'', Bool True),
     (''needs_advanced'', Bool True)],
    [(''num'', Str ''20''),
     (''name'', Str ''advanced_patterns''),
     (''title'', Str ''Advanced Patterns''),
     (''needs_intermediate'', Bool True),
     (''needs_advanced'', Bool True)]]"

definition subscript :: "pydict \<Rightarrow> string \<Rightarrow> error + pyval" where
  "subscript d k = (case map_of d k of None \<Rightarrow> Inl KeyError | Some v \<Rightarrow> Inr v)"



fun format_val :: "pyval \<Rightarrow> string" where
  "format_val (Str s) = s"
| "format_val (Bool b) = (if b then ''True'' else ''False'')"

lemma str_split_nonempty: "str_split sep s \<noteq> []"
  by (induction s) (auto split: list.splits)

lemma py_index_back:
  "0 < k \<Longrightarrow> k \<le> length xs \<Longrightarrow> py_index xs (- int k) = Inr (xs ! (length xs - k))"
  by (auto simp: py_index_def Let_def nat_diff_distrib' intro!: arg_cong [where f = "nth xs"])

text \<open>
  C10. For every path string the progress message of FINAL\_GENERATOR's \<open>write_file\<close>
  is computed without an exception: \<open>path.split('/')\<close> has at least one part, and the
  guarded subscripts \<open>parts[-3]\<close> and \<open>parts[-2]\<close> are in range whenever they are
  evaluated, the empty string standing in otherwise.
\<close>

theorem progress_message_total:
  "str_split CHR ''/'' path \<noteq> [] \<and>
   progress_message path =
     Inr (''  '' @ check_mark @ '' '' @
          (if 3 \<le> length (str_split CHR ''/'' path)
           then str_split CHR ''/'' path ! (length (str_split CHR ''/'' path) - 3) else '''') @
          ''/'' @
          (if 2 \<le> length (str_split CHR ''/'' path)
           then str_split CHR ''/'' path ! (length (str_split CHR ''/'' path) - 2) else ''''))"
proof -
  let ?parts = "str_split CHR ''/'' path"
  have three: "3 \<le> length ?parts \<Longrightarrow> py_index ?parts (- 3) = Inr (?parts ! (length ?parts - 3))"
    using py_index_back [of 3 ?parts] by simp
  have two: "2 \<le> length ?parts \<Longrightarrow> py_index ?parts (- 2) = Inr (?parts ! (length ?parts - 2))"
    using py_index_back [of 2 ?parts] by simp
  show ?thesis
    using three two by (simp add: progress_message_def Let_def str_split_nonempty)
qed

text \<open>
  C6. The table \<open>TOPICS\<close> has 20 entries; every entry has exactly the five keys
  \<open>num\<close>, \<open>name\<close>, \<open>title\<close>, \<open>needs_intermediate\<close> and \<open>needs_advanced\<close>; the
  \<open>num\<close> values are the two-digit, zero-padded numbers 01 to 20 in list order; and both
  level flags are \<open>True\<close> in every entry.
\<close>

theorem TOPICS_shape:
  "length TOPICS = 20 \<and>
   map (map fst) TOPICS =
     replicate 20 [''num'', ''name'', ''title'', ''needs_intermediate'', ''needs_advanced''] \<and>
   map (\<lambda>t. subscript t ''num'') TOPICS = map (\<lambda>i. Inr (Str (format_02d i))) [1..20] \<and>
   map (\<lambda>t. (subscript t ''needs_intermediate'', subscript t ''needs_advanced'')) TOPICS =
     replicate 20 (Inr (Bool True), Inr (Bool True))"
  by code_simp

section \<open>The environment: files, working directory, standard output\<close>

text \<open>
  The scripts act on their environment through the Python standard library only. The
  environment is modelled as a POSIX file system without symbolic links and without
  permission or resource failures: a finite table from absolute locations (the list of
  names from the root) to nodes, a working directory, the lines given to \<open>print\<close>, and
  the encoding that \<open>open\<close> uses when the caller names none (the locale's). A file node
  holds the bytes of the file.
\<close>

datatype node = Dir | File string

type_synonym fpath = "string list"

datatype codec = UTF_8 | ASCII

record world =
  files :: "(fpath \<times> node) list"
  cwd :: fpath
  stdout :: "string list"
  locale_encoding :: codec

datatype 'a outcome = Returns 'a world | Raises error world

definition lookup :: "world \<Rightarrow> fpath \<Rightarrow> node option" where
  "lookup w p = map_of (files w) p"

text \<open>
  \<open>print(s)\<close> appends one line to standard output. Standard output is kept as text;
  its encoding is not modelled, so \<open>print\<close> does not raise.
\<close>

definition print :: "string \<Rightarrow> world \<Rightarrow> world" where
  "print s w = w\<lparr>stdout := stdout w @ [s]\<rparr>"

text \<open>
  \<open>s.encode(codec)\<close> on the UTF-8 representation: UTF-8 keeps the bytes, ASCII accepts
  only code points below 128 and raises \<open>UnicodeEncodeError\<close> otherwise.
\<close>

fun encode :: "codec \<Rightarrow> string \<Rightarrow> error + string" where
  "encode UTF_8 s = Inr s"
| "encode ASCII s =
     (if list_all (\<lambda>c. (of_char c :: nat) < 128) s then Inr s else Inl UnicodeEncodeError)"

subsection \<open>Path lookup of the kernel\<close>

text \<open>
  A path is followed component by component. A component is entered only from an
  existing directory; an empty component and \<open>.\<close> stay, \<open>..\<close> goes to the parent (the
  root is its own parent). The location reached last need not exist.
\<close>

fun walk :: "world \<Rightarrow> fpath \<Rightarrow> string list \<Rightarrow> error + fpath" where
  "walk w cur [] = Inr cur"
| "walk w cur (c # cs) =
     (case lookup w cur of
        None \<Rightarrow> Inl FileNotFoundError
      | Some (File _) \<Rightarrow> Inl NotADirectoryError
      | Some Dir \<Rightarrow>
          if c = [] \<or> c = ''.'' then walk w cur cs
          else if c = ''..'' then walk w (butlast cur) cs
          else walk w (cur @ [c]) cs)"

definition start_dir :: "world \<Rightarrow> string \<Rightarrow> fpath" where
  "start_dir w path = (if startswith path ''/'' then [] else cwd w)"

definition resolve :: "world \<Rightarrow> string \<Rightarrow> error + fpath" where
  "resolve w path =
     (if path = [] then Inl FileNotFoundError
      else walk w (start_dir w path) (str_split CHR ''/'' path))"

text \<open>\<open>os.stat\<close>, and \<open>os.path.exists\<close> and \<open>os.path.isdir\<close> on top of it.\<close>

definition stat :: "world \<Rightarrow> string \<Rightarrow> error + node" where
  "stat w path =
     (case resolve w path of
        Inl e \<Rightarrow> Inl e
      | Inr p \<Rightarrow> (case lookup w p of None \<Rightarrow> Inl FileNotFoundError | Some n \<Rightarrow> Inr n))"

definition exists :: "world \<Rightarrow> string \<Rightarrow> bool" where
  "exists w path = (case stat w path of Inl e \<Rightarrow> False | Inr n \<Rightarrow> True)"

definition isdir :: "world \<Rightarrow> string \<Rightarrow> bool" where
  "isdir w path = (case stat w path of Inl e \<Rightarrow> False | Inr Dir \<Rightarrow> True | Inr (File b) \<Rightarrow> False)"

text \<open>
  \<open>os.mkdir\<close>: trailing slashes are ignored, the parent must be an existing directory
  and the name must be new.
\<close>

definition strip_trailing :: "string list \<Rightarrow> string list" where
  "strip_trailing comps = rev (dropWhile (\<lambda>c. c = []) (rev comps))"

definition mkdir :: "string \<Rightarrow> world \<Rightarrow> unit outcome" where
  "mkdir path w =
     (if path = [] then Raises FileNotFoundError w
      else
        let comps = strip_trailing (str_split CHR ''/'' path) in
        if comps = [] then Raises FileExistsError w
        else
          (case walk w (start_dir w path) (butlast comps) of
             Inl e \<Rightarrow> Raises e w
           | Inr parent \<Rightarrow>
               (case lookup w parent of
                  None \<Rightarrow> Raises FileNotFoundError w
                | Some (File b) \<Rightarrow> Raises NotADirectoryError w
                | Some Dir \<Rightarrow>
                    if last comps = ''.'' \<or> last comps = ''..'' then Raises FileExistsError w
                    else
                      (case lookup w (parent @ [last comps]) of
                         Some n \<Rightarrow> Raises FileExistsError w
                       | None \<Rightarrow>
                           Returns () (w\<lparr>files := files w @ [(parent @ [last comps], Dir)]\<rparr>)))))"

text \<open>
  \<open>open(path, 'w')\<close> creates the file or truncates it and returns the file object, here
  the location of the file. A path that names a directory raises.
\<close>

definition open_w :: "string \<Rightarrow> world \<Rightarrow> fpath outcome" where
  "open_w path w =
     (if path = [] then Raises FileNotFoundError w
      else
        let comps = str_split CHR ''/'' path;
            names = strip_trailing comps in
        if names = [] then Raises IsADirectoryError w
        else
          (case walk w (start_dir w path) (butlast names) of
             Inl e \<Rightarrow> Raises e w
           | Inr parent \<Rightarrow>
               (case lookup w parent of
                  None \<Rightarrow> Raises FileNotFoundError w
                | Some (File b) \<Rightarrow> Raises NotADirectoryError w
                | Some Dir \<Rightarrow>
                    if length names < length comps \<or> last names = ''.'' \<or> last names = ''..''
                    then Raises IsADirectoryError w
                    else
                      (case lookup w (parent @ [last names]) of
                         Some Dir \<Rightarrow> Raises IsADirectoryError w
                       | _ \<Rightarrow>
                           Returns (parent @ [last names])
                             (w\<lparr>files := AList.update (parent @ [last names]) (File []) (files w)\<rparr>)))))"

text \<open>
  \<open>f.write(content)\<close> followed by the close at the end of the \<open>with\<close> block: the
  text is encoded as a whole, so an encoding error leaves the file as \<open>open\<close> made it.
\<close>

definition file_write :: "codec \<Rightarrow> fpath \<Rightarrow> string \<Rightarrow> world \<Rightarrow> unit outcome" where
  "file_write enc f content w =
     (case encode enc content of
        Inl e \<Rightarrow> Raises e w
      | Inr bytes \<Rightarrow> Returns () (w\<lparr>files := AList.update f (File bytes) (files w)\<rparr>))"

text \<open>\<open>os.listdir\<close>, \<open>os.chdir\<close>, \<open>os.getcwd\<close>.\<close>

definition listdir :: "world \<Rightarrow> string \<Rightarrow> error + string list" where
  "listdir w path =
     (case resolve w path of
        Inl e \<Rightarrow> Inl e
      | Inr d \<Rightarrow>
          (case lookup w d of
             None \<Rightarrow> Inl FileNotFoundError
           | Some (File b) \<Rightarrow> Inl NotADirectoryError
           | Some Dir \<Rightarrow>
               Inr (remdups (map last (filter (\<lambda>p. p \<noteq> [] \<and> butlast p = d) (map fst (files w)))))))"

definition chdir :: "string \<Rightarrow> world \<Rightarrow> unit outcome" where
  "chdir path w =
     (case resolve w path of
        Inl e \<Rightarrow> Raises e w
      | Inr d \<Rightarrow>
          (case lookup w d of
             None \<Rightarrow> Raises FileNotFoundError w
           | Some (File b) \<Rightarrow> Raises NotADirectoryError w
           | Some Dir \<Rightarrow> Returns () (w\<lparr>cwd := d\<rparr>)))"

definition getcwd :: "world \<Rightarrow> string" where
  "getcwd w = (if cwd w = [] then ''/'' else concat (map (\<lambda>c. ''/'' @ c) (cwd w)))"

subsection \<open>\<open>os.path\<close> (posixpath) and \<open>os.makedirs\<close>\<close>

definition endswith :: "string \<Rightarrow> string \<Rightarrow> bool" where
  "endswith s p = (length p \<le> length s \<and> drop (length s - length p) s = p)"

definition rfind :: "string \<Rightarrow> char \<Rightarrow> int" where
  "rfind s c =
     (if c \<in> set s then int (length s) - 1 - int (length (takeWhile (\<lambda>x. x \<noteq> c) (rev s)))
      else - 1)"

definition rstrip :: "char \<Rightarrow> string \<Rightarrow> string" where
  "rstrip c s = rev (dropWhile (\<lambda>x. x = c) (rev s))"

definition posix_split :: "string \<Rightarrow> string \<times> string" where
  "posix_split p =
     (let i = nat (rfind p CHR ''/'' + 1);
          head = take i p;
          tail = drop i p
      in (if head \<noteq> [] \<and> head \<noteq> replicate (length head) CHR ''/''
          then rstrip CHR ''/'' head else head, tail))"

definition dirname :: "string \<Rightarrow> string" where
  "dirname p =
     (let i = nat (rfind p CHR ''/'' + 1);
          head = take i p
      in if head \<noteq> [] \<and> head \<noteq> replicate (length head) CHR ''/''
         then rstrip CHR ''/'' head else head)"

definition isabs :: "string \<Rightarrow> bool" where
  "isabs s = startswith s ''/''"

definition join_step :: "string \<Rightarrow> string \<Rightarrow> string" where
  "join_step path b =
     (if startswith b ''/'' then b
      else if path = [] \<or> endswith path ''/'' then path @ b
      else path @ ''/'' @ b)"

definition join :: "string \<Rightarrow> string list \<Rightarrow> string" where
  "join a p = foldl join_step a p"

fun str_join :: "string \<Rightarrow> string list \<Rightarrow> string" where
  "str_join sep [] = []"
| "str_join sep [x] = x"
| "str_join sep (x # y # ys) = x @ sep @ str_join sep (y # ys)"

definition splitroot :: "string \<Rightarrow> string \<times> string" where
  "splitroot p =
     (if take 1 p \<noteq> ''/'' then ([], p)
      else if take 1 (drop 1 p) \<noteq> ''/'' \<or> take 1 (drop 2 p) = ''/'' then (''/'', drop 1 p)
      else (take 2 p, drop 2 p))"

definition normpath_step :: "string \<Rightarrow> string list \<Rightarrow> string \<Rightarrow> string list" where
  "normpath_step initial_slashes new_comps part =
     (if part = [] \<or> part = ''.'' then new_comps
      else if part \<noteq> ''..'' \<or> (initial_slashes = [] \<and> new_comps = [])
              \<or> (new_comps \<noteq> [] \<and> last new_comps = ''..'')
      then new_comps @ [part]
      else if new_comps \<noteq> [] then butlast new_comps
      else new_comps)"

definition normpath :: "string \<Rightarrow> string" where
  "normpath path =
     (if path = [] then ''.''
      else
        (case splitroot path of
           (initial_slashes, rest) \<Rightarrow>
             let comps = foldl (normpath_step initial_slashes) [] (str_split CHR ''/'' rest);
                 path' = initial_slashes @ str_join ''/'' comps
             in if path' = [] then ''.'' else path'))"

definition abspath :: "world \<Rightarrow> string \<Rightarrow> string" where
  "abspath w path = normpath (if \<not> isabs path then join (getcwd w) [path] else path)"

text \<open>
  \<open>os.makedirs(name, exist_ok=...)\<close>: \<open>makedirs_leaf\<close> is its final
  \<open>try: mkdir(name) except OSError: ...\<close>, which re-raises unless \<open>exist_ok\<close> is set and
  the name is a directory.
\<close>

definition makedirs_leaf :: "string \<Rightarrow> bool \<Rightarrow> world \<Rightarrow> unit outcome" where
  "makedirs_leaf name exist_ok w =
     (case mkdir name w of
        Returns u w1 \<Rightarrow> Returns () w1
      | Raises e w1 \<Rightarrow>
          if is_OSError e \<and> \<not> (\<not> exist_ok \<or> \<not> isdir w1 name) then Returns () w1
          else Raises e w1)"

lemma rstrip_length: "length (rstrip c s) \<le> length s"
  unfolding rstrip_def using length_dropWhile_le [of "\<lambda>x. x = c" "rev s"] by simp

lemma posix_split_head_le: "length (fst (posix_split p)) \<le> length p"
proof -
  have "length (rstrip CHR ''/'' (take i p)) \<le> length p" for i
    using rstrip_length [of "CHR ''/''" "take i p"] by simp
  then show ?thesis by (simp add: posix_split_def Let_def)
qed

lemma posix_split_head_less:
  assumes "snd (posix_split p) \<noteq> []"
  shows "length (fst (posix_split p)) < length p"
proof -
  let ?i = "nat (rfind p CHR ''/'' + 1)"
  from assms have "?i < length p" by (simp add: posix_split_def Let_def)
  moreover have "length (rstrip CHR ''/'' (take ?i p)) \<le> ?i"
    using rstrip_length [of "CHR ''/''" "take ?i p"] by simp
  ultimately show ?thesis by (simp add: posix_split_def Let_def)
qed

function makedirs :: "string \<Rightarrow> bool \<Rightarrow> world \<Rightarrow> unit outcome" where
  "makedirs name exist_ok w =
     (case posix_split name of
        (head0, tail0) \<Rightarrow>
          (case (if tail0 = [] then posix_split head0 else (head0, tail0)) of
             (head, tail) \<Rightarrow>
               if head \<noteq> [] \<and> tail \<noteq> [] \<and> \<not> exists w head then
                 (case makedirs head exist_ok w of
                    Returns u w1 \<Rightarrow>
                      if tail = ''.'' then Returns () w1 else makedirs_leaf name exist_ok w1
                  | Raises e w1 \<Rightarrow>
                      if e = FileExistsError
                      then (if tail = ''.'' then Returns () w1 else makedirs_leaf name exist_ok w1)
                      else Raises e w1)
               else makedirs_leaf name exist_ok w))"
  by pat_completeness auto
termination
proof (relation "measure (\<lambda>(name, exist_ok, w). length name)")
  show "wf (measure (\<lambda>(name, exist_ok, w). length name))" by simp
next
  fix name :: string and exist_ok :: bool and w :: world
    and head0 tail0 head tail :: string
  assume s0: "(head0, tail0) = posix_split name"
    and s1: "(head, tail) = (if tail0 = [] then posix_split head0 else (head0, tail0))"
    and c: "head \<noteq> [] \<and> tail \<noteq> [] \<and> \<not> exists w head"
  have h0: "length head0 \<le> length name"
    using posix_split_head_le [of name] s0 [symmetric] by simp
  have "length head < length name"
  proof (cases "tail0 = []")
    case True
    with s1 have "posix_split head0 = (head, tail)" by simp
    with c posix_split_head_less [of head0] have "length head < length head0" by simp
    with h0 show ?thesis by simp
  next
    case False
    with s1 have "head = head0" "tail = tail0" by simp_all
    with c s0 [symmetric] posix_split_head_less [of name] show ?thesis by simp
  qed
  then show "((head, exist_ok, w), (name, exist_ok, w)) \<in> measure (\<lambda>(name, exist_ok, w). length name)"
    by simp
qed

declare makedirs.simps [simp del]



section \<open>Paths in normal form\<close>

text \<open>
  The paths the scripts build are lists of plain names joined by single slashes, with or
  without a leading slash. For such paths the string functions of \<open>os.path\<close> and the
  lookup of the kernel are characterised by the list of names.
\<close>
















text \<open>
  Where a path starts: the root for an absolute path, the working directory otherwise.
  \<open>dirs_to\<close> says that the start and every directory passed on the way to the last name
  exist; \<open>clear_way\<close> says that no regular file stands on the way, so that every location
  on it is missing or a directory; \<open>missing_dirs\<close> lists the locations on the way that are
  missing, nearest to the start first, and \<open>with_dirs\<close> adds directories to a world.
\<close>

definition base_of :: "world \<Rightarrow> bool \<Rightarrow> fpath" where
  "base_of w absolute = (if absolute then [] else cwd w)"



fun missing_dirs :: "world \<Rightarrow> fpath \<Rightarrow> string list \<Rightarrow> fpath list" where
  "missing_dirs w cur [] = []"
| "missing_dirs w cur (c # cs) =
     (if lookup w (cur @ [c]) = None then [cur @ [c]] else []) @ missing_dirs w (cur @ [c]) cs"

definition with_dirs :: "world \<Rightarrow> fpath list \<Rightarrow> world" where
  "with_dirs w ps = w\<lparr>files := files w @ map (\<lambda>p. (p, Dir)) ps\<rparr>"
























lemma with_dirs_fields [simp]:
  "cwd (with_dirs w ps) = cwd w" "stdout (with_dirs w ps) = stdout w"
  "locale_encoding (with_dirs w ps) = locale_encoding w"
  "base_of (with_dirs w ps) a = base_of w a"
  by (simp_all add: with_dirs_def base_of_def)

lemma with_dirs_Nil [simp]: "with_dirs w [] = w"
  by (simp add: with_dirs_def)





lemma missing_dirs_None: "p \<in> set (missing_dirs w cur ds) \<Longrightarrow> lookup w p = None"
  by (induction ds arbitrary: cur) (auto split: if_splits)





section \<open>The scripts\<close>

text \<open>
  A script either runs to its end or stops at an exception nothing catches; \<open>sys.exit(n)\<close>
  ends it with status \<open>n\<close>. Consecutive \<open>print\<close> statements are written as one list.
\<close>

datatype process = Exited int world | Uncaught error world

definition print_lines :: "string list \<Rightarrow> world \<Rightarrow> world" where
  "print_lines ls w = foldl (\<lambda>w s. print s w) w ls"

subsection \<open>GENERATE\_ALL\_THEORIES.py\<close>


definition GENERATE_ALL_THEORIES_script :: "world \<Rightarrow> process" where
  "GENERATE_ALL_THEORIES_script w =
     Exited 0 (print_lines
       [''\<newline>'' @ replicate 70 CHR ''='',
        ''  GO LANGUAGE THEORY GENERATOR'',
        ''  Comprehensive learning materials with C/C++ comparisons'',
        replicate 70 CHR ''='' @ ''\<newline>'',
        ''Generating detailed theory files for all 20 topics...\<newline>''] w)"

subsection \<open>generate\_all\_theory\_files.py\<close>

definition create_file :: "string \<Rightarrow> string \<Rightarrow> world \<Rightarrow> unit outcome" where
  "create_file path content w =
     (case makedirs (dirname path) True w of
        Raises e w1 \<Rightarrow> Raises e w1
      | Returns u w1 \<Rightarrow>
          (case open_w path w1 of
             Raises e w2 \<Rightarrow> Raises e w2
           | Returns f w2 \<Rightarrow>
               (case file_write UTF_8 f content w2 of
                  Raises e w3 \<Rightarrow> Raises e w3
                | Returns u w3 \<Rightarrow> Returns () (print (check_mark @ '' '' @ path) w3))))"

definition generate_all_theory_files_script :: "world \<Rightarrow> process" where
  "generate_all_theory_files_script w =
     (let topics_count = (20 :: int);
          levels = [''basic'', ''intermediate'', ''advanced''];
          total = topics_count * int (length levels)
      in Exited 0 (print_lines
       [replicate 60 CHR ''='',
        ''Go Theory Generator - Creating comprehensive learning materials'',
        replicate 60 CHR ''='',
        ''\<newline>Generating theory files... This will take a moment.\<newline>'',
        ''Total theory files to create: '' @ str_int total,
        ''Topics: '' @ str_int topics_count,
        ''Levels per topic: '' @ str_int (int (length levels)),
        ''\<newline>To generate all files, this script will create detailed content with:'',
        ''- C/C++ comparisons for each concept'',
        ''- Design rationale explanations'',
        ''- Code examples'',
        ''- Performance implications'',
        ''- Best practices'',
        ''\<newline>NOTE: Due to the extensive content, I recommend running topic-specific'',
        ''generation scripts. Would you like to proceed with batch generation?''] w))"

subsection \<open>FINAL\_GENERATOR.py\<close>


text \<open>
  The status scan of \<open>main\<close>: the loop over the directory entries, which stops at the
  first entry that has the theory file, inside the loop over the levels, inside the
  loop over the topic numbers. \<open>os.listdir('.')\<close> is called once for each level.
  The variable \<open>topic\<close> of the outer loop is bound and never read; it is left out.
\<close>

fun count_entries :: "world \<Rightarrow> int \<Rightarrow> string \<Rightarrow> string list \<Rightarrow> int \<Rightarrow> int" where
  "count_entries w i level [] existing = existing"
| "count_entries w i level (topic_dir # rest) existing =
     (if startswith topic_dir (format_02d i @ ''_'') then
        (let theory_path = join topic_dir [level, ''theory.md''] in
         if exists w theory_path then existing + 1
         else count_entries w i level rest existing)
      else count_entries w i level rest existing)"

fun count_levels :: "world \<Rightarrow> int \<Rightarrow> string list \<Rightarrow> int \<Rightarrow> error + int" where
  "count_levels w i [] existing = Inr existing"
| "count_levels w i (level # levels) existing =
     (case listdir w ''.'' of
        Inl e \<Rightarrow> Inl e
      | Inr entries \<Rightarrow> count_levels w i levels (count_entries w i level entries existing))"

fun count_topics :: "world \<Rightarrow> int list \<Rightarrow> int \<Rightarrow> error + int" where
  "count_topics w [] existing = Inr existing"
| "count_topics w (i # rest) existing =
     (case count_levels w i [''basic'', ''intermediate'', ''advanced''] existing of
        Inl e \<Rightarrow> Inl e
      | Inr existing' \<Rightarrow> count_topics w rest existing')"

text \<open>
  The sibling module \<open>generate_all_content\<close> is not part of the repository. The statement
  \<open>from generate_all_content import generate_all_theories\<close> is a parameter of the model:
  it runs in the current world and either raises or yields the function it binds.
\<close>

type_synonym importer = "world \<Rightarrow> (world \<Rightarrow> unit outcome) outcome"

text \<open>The second half of \<open>main\<close>, from the import to the closing messages.\<close>

definition closing_lines :: "string list" where
  "closing_lines =
     ['''',
      replicate 70 CHR ''='',
      ''GENERATION COMPLETE!'',
      replicate 70 CHR ''='',
      '''',
      ''All theory files created with:'',
      ''  '' @ bullet @ '' Detailed explanations'',
      ''  '' @ bullet @ '' C/C++ comparisons'',
      ''  '' @ bullet @ '' Design rationale'',
      ''  '' @ bullet @ '' Code examples'',
      ''  '' @ bullet @ '' Performance implications'',
      '''',
      ''Start learning from:'',
      ''  cd 01_basics_and_syntax'',
      ''  cat claude.md  # Context file for working with Claude'',
      ''  cd basic && cat theory.md'',
      '''']"

definition main_generate :: "importer \<Rightarrow> world \<Rightarrow> unit outcome" where
  "main_generate import_generate_all_theories w =
     (case import_generate_all_theories w of
        Raises e w1 \<Rightarrow> Raises e w1
      | Returns generate_all_theories w1 \<Rightarrow>
          (case generate_all_theories w1 of
             Raises e w2 \<Rightarrow> Raises e w2
           | Returns u w2 \<Rightarrow> Returns () (print_lines closing_lines w2)))"

definition banner_lines :: "string list" where
  "banner_lines =
     [replicate 70 CHR ''='',
      ''GO LANGUAGE THEORY GENERATOR - Topics 03-20'',
      ''Comprehensive learning materials with C/C++ comparisons'',
      replicate 70 CHR ''='',
      '''']"

definition status_lines :: "int \<Rightarrow> string list" where
  "status_lines existing =
     [''Status: '' @ str_int existing @ ''/60 theory files exist'',
      ''Generating '' @ str_int (60 - existing) @ '' remaining files...'',
      '''']"

definition main :: "string \<Rightarrow> importer \<Rightarrow> world \<Rightarrow> unit outcome" where
  "main script_file import_generate_all_theories w =
     (let w1 = print_lines banner_lines w;
          base_path = dirname (abspath w1 script_file)
      in case chdir base_path w1 of
           Raises e w2 \<Rightarrow> Raises e w2
         | Returns u w2 \<Rightarrow>
             (case count_topics w2 [1..20] 0 of
                Inl e \<Rightarrow> Raises e w2
              | Inr existing \<Rightarrow>
                  main_generate import_generate_all_theories
                    (print_lines (status_lines existing) w2)))"



subsection \<open>generate\_comprehensive\_theory.py\<close>






subsection \<open>CREATE\_FULL\_THEORY.py\<close>

definition BASE_PATH :: string where
  "BASE_PATH = ''/media/usb/anrai/golang/go_theory''"

definition CREATE_FULL_THEORY_write_file :: "string \<Rightarrow> string \<Rightarrow> world \<Rightarrow> unit outcome" where
  "CREATE_FULL_THEORY_write_file path content w =
     (case makedirs (dirname path) True w of
        Raises e w1 \<Rightarrow> Raises e w1
      | Returns u w1 \<Rightarrow>
          (case open_w path w1 of
             Raises e w2 \<Rightarrow> Raises e w2
           | Returns f w2 \<Rightarrow>
               (case file_write (locale_encoding w2) f content w2 of
                  Raises e w3 \<Rightarrow> Raises e w3
                | Returns u w3 \<Rightarrow> Returns () (print (''Created: '' @ path) w3))))"

definition TOPIC_01_BASIC :: string where
  \<open>TOPIC_01_BASIC =
     ''# Go Basics and Syntax - Basic Level\<newline>'' @
     ''\<newline>'' @
     ''[Previous comprehensive content from THEORY_CONTENT["01_basics_and_syntax"]["basic"]]\<newline>''\<close>

definition TOPIC_02_BASIC :: string where
  \<open>TOPIC_02_BASIC =
     ''# Data Types and Variables - Basic Level\<newline>'' @
     ''\<newline>'' @
     ''## Overview\<newline>'' @
     ''\<newline>'' @
     ''Go has a simpler type system than C/C++ by design. While C/C++ evolved over decades accumulating features, Go was designed from scratch with modern software engineering in mind.\<newline>'' @
     ''\<newline>'' @
     ''## Basic Types Comparison\<newline>'' @
     ''\<newline>'' @
     ''### Integer Types\<newline>'' @
     ''\<newline>'' @
     ''**C/C++:**\<newline>'' @
     ''```cpp\<newline>'' @
     ''char c;           // Usually 8 bits, but not guaranteed\<newline>'' @
     ''short s;          // At least 16 bits\<newline>'' @
     ''int i;            // At least 16 bits (usually 32)\<newline>'' @
     ''long l;           // At least 32 bits\<newline>'' @
     ''long long ll;     // At least 64 bits (C++11)\<newline>'' @
     ''\<newline>'' @
     ''// Size depends on platform!\<newline>'' @
     ''sizeof(int);      // Could be 2, 4, or 8 bytes\<newline>'' @
     ''```\<newline>'' @
     ''\<newline>'' @
     ''**Go:**\<newline>'' @
     ''```go\<newline>'' @
     ''var i8  int8      // Exactly 8 bits, always\<newline>'' @
     ''var i16 int16     // Exactly 16 bits, always\<newline>'' @
     ''var i32 int32     // Exactly 32 bits, always\<newline>'' @
     ''var i64 int64     // Exactly 64 bits, always\<newline>'' @
     ''\<newline>'' @
     ''var u8  uint8     // Unsigned 8 bits\<newline>'' @
     ''var u16 uint16    // Unsigned 16 bits\<newline>'' @
     ''var u32 uint32    // Unsigned 32 bits\<newline>'' @
     ''var u64 uint64    // Unsigned 64 bits\<newline>'' @
     ''\<newline>'' @
     ''var i int         // Platform dependent (32 or 64 bit)\<newline>'' @
     ''var u uint        // Platform dependent unsigned\<newline>'' @
     ''```\<newline>'' @
     ''\<newline>'' @
     ''### Design Rationale: Fixed-Size Integers\<newline>'' @
     ''\<newline>'' @
     ''**Why Go specifies exact sizes:**\<newline>'' @
     ''\<newline>'' @
     ''1. **Portability**: Code behaves identically on all platforms\<newline>'' @
     ''```cpp\<newline>'' @
     ''// C++ problem:\<newline>'' @
     ''int x = 2147483647;  // Max 32-bit int\<newline>'' @
     ''x++;                  // Overflow behavior undefined!\<newline>'' @
     ''// On some platforms: wraps to negative\<newline>'' @
     ''// On others: might trap\<newline>'' @
     ''// Optimizers assume it never happens!\<newline>'' @
     ''```\<newline>'' @
     ''\<newline>'' @
     ''```go\<newline>'' @
     ''// Go solution:\<newline>'' @
     ''var x int32 = 2147483647\<newline>'' @
     ''x++  // Defined behavior: wraps to -2147483648\<newline>'' @
     ''// Same on all platforms\<newline>'' @
     ''```\<newline>'' @
     ''\<newline>'' @
     ''2. **Binary protocols**: Network/file formats need exact sizes\<newline>'' @
     ''```go\<newline>'' @
     ''// Writing binary data:\<newline>'' @
     ''var header struct {\<newline>'' @
     ''    Magic   uint32  // Always 4 bytes\<newline>'' @
     ''    Version uint16  // Always 2 bytes\<newline>'' @
     ''    Flags   uint8   // Always 1 byte\<newline>'' @
     ''}\<newline>'' @
     ''// Total: 7 bytes on ALL platforms\<newline>'' @
     ''```\<newline>'' @
     ''\<newline>'' @
     ''3. **Memory layout**: Predictable struct sizes\<newline>'' @
     ''```go\<newline>'' @
     ''type Point struct {\<newline>'' @
     ''    X int32  // 4 bytes\<newline>'' @
     ''    Y int32  // 4 bytes\<newline>'' @
     ''}\<newline>'' @
     ''// Always 8 bytes (plus padding)\<newline>'' @
     ''```\<newline>'' @
     ''\<newline>'' @
     ''**When to use int vs int32:**\<newline>'' @
     ''- `int`: For counts, indices, general arithmetic (idiomatic)\<newline>'' @
     ''- `int32`/`int64`: When size matters (binary formats, APIs)\<newline>'' @
     ''\<newline>'' @
     ''### Floating Point Types\<newline>'' @
     ''\<newline>'' @
     ''**C/C++:**\<newline>'' @
     ''```cpp\<newline>'' @
     ''float f;         // Usually 32 bits (not guaranteed)\<newline>'' @
     ''double d;        // Usually 64 bits (not guaranteed)\<newline>'' @
     ''long double ld;  // Platform dependent (64, 80, or 128 bits!)\<newline>'' @
     ''```\<newline>'' @
     ''\<newline>'' @
     ''**Go:**\<newline>'' @
     ''```go\<newline>'' @
     ''var f32 float32  // IEEE-754 32-bit, always\<newline>'' @
     ''var f64 float64  // IEEE-754 64-bit, always\<newline>'' @
     ''\<newline>'' @
     ''// No long double - float64 is sufficient\<newline>'' @
     ''```\<newline>'' @
     ''\<newline>'' @
     ''### Design Rationale: No Long Double\<newline>'' @
     ''\<newline>'' @
     ''**Why Go omitted long double:**\<newline>'' @
     ''\<newline>'' @
     ''1. **Simplicity**: Two float types are enough\<newline>'' @
     ''2. **Platform consistency**: long double varies wildly\<newline>'' @
     ''3. **Sufficient precision**: float64 has 15-17 decimal digits\<newline>'' @
     ''4. **Use math/big for arbitrary precision** if needed\<newline>'' @
     ''\<newline>'' @
     ''```go\<newline>'' @
     ''import "math/big"\<newline>'' @
     ''\<newline>'' @
     ''// For arbitrary precision:\<newline>'' @
     ''f := new(big.Float)\<newline>'' @
     ''f.SetPrec(1000)  // 1000 bits of precision\<newline>'' @
     ''```\<newline>'' @
     ''\<newline>'' @
     ''### Complex Numbers\<newline>'' @
     ''\<newline>'' @
     ''**C/C++:**\<newline>'' @
     ''```cpp\<newline>'' @
     ''#include <complex>\<newline>'' @
     ''\<newline>'' @
     ''std::complex<float> c1(1.0f, 2.0f);\<newline>'' @
     ''std::complex<double> c2(1.0, 2.0);\<newline>'' @
     ''\<newline>'' @
     ''// Or in C:\<newline>'' @
     ''float complex c1 = 1.0f + 2.0f * I;\<newline>'' @
     ''```\<newline>'' @
     ''\<newline>'' @
     ''**Go:**\<newline>'' @
     ''```go\<newline>'' @
     ''var c64  complex64   // Two float32s\<newline>'' @
     ''var c128 complex128  // Two float64s\<newline>'' @
     ''\<newline>'' @
     ''c := 1 + 2i          // complex128 literal\<newline>'' @
     ''c = complex(1, 2)    // Explicit construction\<newline>'' @
     ''\<newline>'' @
     ''real := real(c)      // Extract real part\<newline>'' @
     ''imag := imag(c)      // Extract imaginary part\<newline>'' @
     ''```\<newline>'' @
     ''\<newline>'' @
     ''### Design Rationale: Built-in Complex Numbers\<newline>'' @
     ''\<newline>'' @
     ''**Why Go has first-class complex numbers:**\<newline>'' @
     ''\<newline>'' @
     ''1. **Scientific computing**: Common in signal processing, quantum computing\<newline>'' @
     ''2. **No library needed**: Part of the language\<newline>'' @
     ''3. **Optimizable**: Compiler can optimize complex arithmetic\<newline>'' @
     ''4. **Type safe**: complex64 and complex128 are distinct types\<newline>'' @
     ''\<newline>'' @
     ''**Example: FFT implementation is cleaner:**\<newline>'' @
     ''```go\<newline>'' @
     ''// Go:\<newline>'' @
     ''func FFT(x []complex128) []complex128 {\<newline>'' @
     ''    // Direct complex arithmetic\<newline>'' @
     ''    w := complex(math.Cos(angle), math.Sin(angle))\<newline>'' @
     ''    return result * w\<newline>'' @
     ''}\<newline>'' @
     ''```\<newline>'' @
     ''\<newline>'' @
     ''```cpp\<newline>'' @
     ''// C++:\<newline>'' @
     ''std::vector<std::complex<double>> FFT(const std::vector<std::complex<double>>& x) {\<newline>'' @
     ''    // More verbose, same functionality\<newline>'' @
     ''}\<newline>'' @
     ''```\<newline>'' @
     ''\<newline>'' @
     ''### Boolean Type\<newline>'' @
     ''\<newline>'' @
     ''**C/C++:**\<newline>'' @
     ''```cpp\<newline>'' @
     ''// C:\<newline>'' @
     ''int flag = 1;        // 0 is false, non-zero is true\<newline>'' @
     ''if (flag) { }        // Any integer can be condition\<newline>'' @
     ''\<newline>'' @
     ''// C++:\<newline>'' @
     ''bool flag = true;    // Dedicated bool type\<newline>'' @
     ''if (5) { }           // But still: int converts to bool!\<newline>'' @
     ''```\<newline>'' @
     ''\<newline>'' @
     ''**Go:**\<newline>'' @
     ''```go\<newline>'' @
     ''var flag bool = true  // Only true or false\<newline>'' @
     ''\<newline>'' @
     ''// if 5 { }           // Compile error!\<newline>'' @
     ''if x != 0 { }         // Must explicitly compare\<newline>'' @
     ''```\<newline>'' @
     ''\<newline>'' @
     ''### Design Rationale: Strict Boolean\<newline>'' @
     ''\<newline>'' @
     ''**Why Go's bool is not numeric:**\<newline>'' @
     ''\<newline>'' @
     ''1. **Clarity**: Conditions are explicit\<newline>'' @
     ''2. **Safety**: No accidental bool/int confusion\<newline>'' @
     ''3. **No implicit conversions**: Must be explicit\<newline>'' @
     ''\<newline>'' @
     ''**Common C/C++ bugs Go prevents:**\<newline>'' @
     ''```cpp\<newline>'' @
     ''// C++:\<newline>'' @
     ''if (x = 5) {  // Assignment, not comparison!\<newline>'' @
     ''    // Always true, bug!\<newline>'' @
     ''}\<newline>'' @
     ''\<newline>'' @
     ''bool b = 5;   // Implicitly converts to true\<newline>'' @
     ''```\<newline>'' @
     ''\<newline>'' @
     ''```go\<newline>'' @
     ''// Go:\<newline>'' @
     ''if x = 5 {    // Compile error: x = 5 is not boolean\<newline>'' @
     ''}\<newline>'' @
     ''\<newline>'' @
     ''// var b bool = 5  // Compile error: cannot convert\<newline>'' @
     ''var b bool = (x == 5)  // Must be explicit\<newline>'' @
     ''```\<newline>'' @
     ''\<newline>'' @
     ''### String Type\<newline>'' @
     ''\<newline>'' @
     ''**C/C++:**\<newline>'' @
     ''```cpp\<newline>'' @
     ''// C:\<newline>'' @
     ''char* str = "hello";           // Pointer to char array\<newline>'' @
     ''char str2[] = "hello";         // Char array\<newline>'' @
     ''size_t len = strlen(str);      // O(n) operation\<newline>'' @
     ''\<newline>'' @
     ''// C++:\<newline>'' @
     ''std::string str = "hello";     // Class type\<newline>'' @
     ''size_t len = str.length();     // O(1) operation\<newline>'' @
     ''str[0] = 'H';                  // Mutable\<newline>'' @
     ''```\<newline>'' @
     ''\<newline>'' @
     ''**Go:**\<newline>'' @
     ''```go\<newline>'' @
     ''var str string = "hello"       // Built-in type\<newline>'' @
     ''len := len(str)                // O(1) operation\<newline>'' @
     ''// str[0] = 'H'                // Compile error: immutable!\<newline>'' @
     ''\<newline>'' @
     ''// Strings are immutable byte slices\<newline>'' @
     ''bytes := []byte(str)           // Convert to mutable bytes\<newline>'' @
     ''bytes[0] = 'H'' @ [CHR 0x27] @ ''\<newline>'' @
     ''str = string(bytes)            // Convert back\<newline>'' @
     ''```\<newline>'' @
     ''\<newline>'' @
     ''### Design Rationale: Immutable Strings\<newline>'' @
     ''\<newline>'' @
     ''**Why Go strings are immutable:**\<newline>'' @
     ''\<newline>'' @
     ''1. **Thread safety**: Can share strings between goroutines safely\<newline>'' @
     ''```go\<newline>'' @
     ''var global string = "shared"\<newline>'' @
     ''\<newline>'' @
     ''go func() {\<newline>'' @
     ''    fmt.Println(global)  // Safe, no mutex needed\<newline>'' @
     ''}()\<newline>'' @
     ''```\<newline>'' @
     ''\<newline>'' @
     ''2. **Memory efficiency**: Can share underlying storage\<newline>'' @
     ''```go\<newline>'' @
     ''s1 := "hello world"\<newline>'' @
     ''s2 := s1[0:5]  // "hello" - shares memory with s1\<newline>'' @
     ''// No copy until modification\<newline>'' @
     ''```\<newline>'' @
     ''\<newline>'' @
     ''3. **Hash table keys**: Strings can't change after hashing\<newline>'' @
     ''```go\<newline>'' @
     ''m := map[string]int{}\<newline>'' @
     ''key := "hello"\<newline>'' @
     ''m[key] = 42\<newline>'' @
     ''// key can't change, so map stays consistent\<newline>'' @
     ''```\<newline>'' @
     ''\<newline>'' @
     ''4. **Security**: String data can't be modified after validation\<newline>'' @
     ''```go\<newline>'' @
     ''func ValidateAndUse(password string) {\<newline>'' @
     ''    if isValid(password) {\<newline>'' @
     ''        // password can't change here\<newline>'' @
     ''        use(password)\<newline>'' @
     ''    }\<newline>'' @
     ''}\<newline>'' @
     ''```\<newline>'' @
     ''\<newline>'' @
     ''**How to modify strings efficiently:**\<newline>'' @
     ''```go\<newline>'' @
     ''import "strings"\<newline>'' @
     ''\<newline>'' @
     ''// For many concatenations:\<newline>'' @
     ''var builder strings.Builder\<newline>'' @
     ''builder.WriteString("hello")\<newline>'' @
     ''builder.WriteString(" ")\<newline>'' @
     ''builder.WriteString("world")\<newline>'' @
     ''result := builder.String()\<newline>'' @
     ''\<newline>'' @
     ''// For single modification:\<newline>'' @
     ''s := "hello"\<newline>'' @
     ''s = s + " world"  // Creates new string\<newline>'' @
     ''```\<newline>'' @
     ''\<newline>'' @
     ''## Variable Declaration\<newline>'' @
     ''\<newline>'' @
     ''### C/C++ Declaration Styles\<newline>'' @
     ''\<newline>'' @
     ''```cpp\<newline>'' @
     ''int x;                    // Uninitialized (undefined value!)\<newline>'' @
     ''int y = 42;              // Initialized\<newline>'' @
     ''int z(42);               // C++ constructor syntax\<newline>'' @
     ''auto a = 42;             // C++11 type inference\<newline>'' @
     ''\<newline>'' @
     ''int* p1;                 // Pointer\<newline>'' @
     ''int *p2;                 // Alternative style\<newline>'' @
     ''int* p1, p2;             // p1 is pointer, p2 is int (gotcha!)\<newline>'' @
     ''```\<newline>'' @
     ''\<newline>'' @
     ''### Go Declaration Styles\<newline>'' @
     ''\<newline>'' @
     ''```go\<newline>'' @
     ''var x int                // Zero-initialized (0)\<newline>'' @
     ''var y int = 42          // Explicit type and value\<newline>'' @
     ''var z = 42              // Type inference (int)\<newline>'' @
     ''w := 42                 // Short declaration\<newline>'' @
     ''\<newline>'' @
     ''var p1 *int             // Pointer (nil)\<newline>'' @
     ''var p2, p3 *int         // Both pointers (consistent)\<newline>'' @
     ''```\<newline>'' @
     ''\<newline>'' @
     ''### Design Rationale: Multiple Declaration Styles\<newline>'' @
     ''\<newline>'' @
     ''**Why Go has three ways to declare variables:**\<newline>'' @
     ''\<newline>'' @
     ''1. **var x Type**: When zero value is wanted\<newline>'' @
     ''```go\<newline>'' @
     ''var count int      // Start at 0\<newline>'' @
     ''var buffer [1024]byte  // All zeros\<newline>'' @
     ''```\<newline>'' @
     ''\<newline>'' @
     ''2. **var x = value**: When type should be explicit\<newline>'' @
     ''```go\<newline>'' @
     ''var timeout = time.Second * 30  // Type is time.Duration\<newline>'' @
     ''var pi = 3.14                   // Type is float64\<newline>'' @
     ''```\<newline>'' @
     ''\<newline>'' @
     ''3. **x := value**: For local variables (most common)\<newline>'' @
     ''```go\<newline>'' @
     ''func process() {\<newline>'' @
     ''    result := compute()  // Type inferred\<newline>'' @
     ''    // Short and clear\<newline>'' @
     ''}\<newline>'' @
     ''```\<newline>'' @
     ''\<newline>'' @
     ''**Where each style is used:**\<newline>'' @
     ''\<newline>'' @
     ''```go\<newline>'' @
     ''// Package level: must use var\<newline>'' @
     ''var globalConfig Config\<newline>'' @
     ''\<newline>'' @
     ''// Function level: prefer :=\<newline>'' @
     ''func example() {\<newline>'' @
     ''    x := 42  // Idiomatic\<newline>'' @
     ''    \<newline>'' @
     ''    // Use var when:\<newline>'' @
     ''    var y int  // Zero value wanted\<newline>'' @
     ''    var z float64 = 3.14  // Type should be explicit\<newline>'' @
     ''}\<newline>'' @
     ''```\<newline>'' @
     ''\<newline>'' @
     ''### Short Variable Declaration\<newline>'' @
     ''\<newline>'' @
     ''**The := operator:**\<newline>'' @
     ''\<newline>'' @
     ''```go\<newline>'' @
     ''x := 42              // Create new variable x\<newline>'' @
     ''y := "hello"         // Create new variable y\<newline>'' @
     ''\<newline>'' @
     ''// Multiple assignment:\<newline>'' @
     ''a, b := 1, 2\<newline>'' @
     ''name, age := "Alice", 30\<newline>'' @
     ''\<newline>'' @
     ''// With function returns:\<newline>'' @
     ''value, err := functionReturningTwo()\<newline>'' @
     ''```\<newline>'' @
     ''\<newline>'' @
     ''**Rules for :=:**\<newline>'' @
     ''1. Only in function bodies (not package level)\<newline>'' @
     ''2. At least one new variable must be declared\<newline>'' @
     ''3. Can redeclare existing variables in multi-assignment\<newline>'' @
     ''\<newline>'' @
     ''```go\<newline>'' @
     ''var x int\<newline>'' @
     ''x := 42  // Error: x already declared\<newline>'' @
     ''\<newline>'' @
     ''var x int\<newline>'' @
     ''x, y := 42, 43  // OK: y is new, x is just assigned\<newline>'' @
     ''```\<newline>'' @
     ''\<newline>'' @
     ''### Design Rationale: Short Declaration\<newline>'' @
     ''\<newline>'' @
     ''**Why := exists:**\<newline>'' @
     ''\<newline>'' @
     ''1. **Conciseness**: Most common case should be shortest\<newline>'' @
     ''```go\<newline>'' @
     ''// Go:\<newline>'' @
     ''x := 42\<newline>'' @
     ''\<newline>'' @
     ''// C++:\<newline>'' @
     ''auto x = 42;  // Similar, but Go is one character shorter\<newline>'' @
     ''```\<newline>'' @
     ''\<newline>'' @
     ''2. **Clear scope**: Obviously a new variable\<newline>'' @
     ''```go\<newline>'' @
     ''if x := compute(); x > 0 {\<newline>'' @
     ''    // x only exists in if block\<newline>'' @
     ''}\<newline>'' @
     ''// x doesn't exist here\<newline>'' @
     ''```\<newline>'' @
     ''\<newline>'' @
     ''3. **Error handling pattern**:\<newline>'' @
     ''```go\<newline>'' @
     ''if err := doSomething(); err != nil {\<newline>'' @
     ''    return err\<newline>'' @
     ''}\<newline>'' @
     ''// err doesn't leak to outer scope\<newline>'' @
     ''```\<newline>'' @
     ''\<newline>'' @
     ''### Multiple Assignment\<newline>'' @
     ''\<newline>'' @
     ''**C/C++:**\<newline>'' @
     ''```cpp\<newline>'' @
     ''int a, b;\<newline>'' @
     ''a = b = 42;  // Right associative: b = 42, then a = b\<newline>'' @
     ''\<newline>'' @
     ''// Can't do:\<newline>'' @
     ''a, b = getValue1(), getValue2();  // Error\<newline>'' @
     ''```\<newline>'' @
     ''\<newline>'' @
     ''**Go:**\<newline>'' @
     ''```go\<newline>'' @
     ''a, b := 1, 2  // Parallel assignment\<newline>'' @
     ''\<newline>'' @
     ''// Swap without temp variable:\<newline>'' @
     ''a, b = b, a\<newline>'' @
     ''\<newline>'' @
     ''// Common pattern with functions:\<newline>'' @
     ''value, err := mayFail()\<newline>'' @
     ''if err != nil {\<newline>'' @
     ''    // Handle error\<newline>'' @
     ''}\<newline>'' @
     ''```\<newline>'' @
     ''\<newline>'' @
     ''### Design Rationale: Parallel Assignment\<newline>'' @
     ''\<newline>'' @
     ''**Why Go supports parallel assignment:**\<newline>'' @
     ''\<newline>'' @
     ''1. **Multiple return values** are common:\<newline>'' @
     ''```go\<newline>'' @
     ''func divmod(a, b int) (int, int) {\<newline>'' @
     ''    return a / b, a % b\<newline>'' @
     ''}\<newline>'' @
     ''\<newline>'' @
     ''quot, rem := divmod(17, 5)\<newline>'' @
     ''```\<newline>'' @
     ''\<newline>'' @
     ''2. **No temporary variables needed**:\<newline>'' @
     ''```go\<newline>'' @
     ''// Swap:\<newline>'' @
     ''a, b = b, a  // Clean and clear\<newline>'' @
     ''\<newline>'' @
     ''// vs C++:\<newline>'' @
     ''std::swap(a, b);  // Need library function\<newline>'' @
     ''// or:\<newline>'' @
     ''int temp = a; a = b; b = temp;  // Verbose\<newline>'' @
     ''```\<newline>'' @
     ''\<newline>'' @
     ''3. **Error handling**:\<newline>'' @
     ''```go\<newline>'' @
     ''// Idiomatic Go:\<newline>'' @
     ''if result, err := f(); err == nil {\<newline>'' @
     ''    use(result)\<newline>'' @
     ''}\<newline>'' @
     ''```\<newline>'' @
     ''\<newline>'' @
     ''## Zero Values\<newline>'' @
     ''\<newline>'' @
     ''### Zero Value Table\<newline>'' @
     ''\<newline>'' @
     ''| Type | Zero Value |\<newline>'' @
     ''|------|-----------|\<newline>'' @
     ''| `int`, `int8`, `int16`, `int32`, `int64` | `0` |\<newline>'' @
     ''| `uint`, `uint8`, `uint16`, `uint32`, `uint64` | `0` |\<newline>'' @
     ''| `float32`, `float64` | `0.0` |\<newline>'' @
     ''| `complex64`, `complex128` | `(0+0i)` |\<newline>'' @
     ''| `bool` | `false` |\<newline>'' @
     ''| `string` | `""` (empty string) |\<newline>'' @
     ''| pointers | `nil` |\<newline>'' @
     ''| slices | `nil` (length 0, capacity 0) |\<newline>'' @
     ''| maps | `nil` (no allocation) |\<newline>'' @
     ''| channels | `nil` |\<newline>'' @
     ''| interfaces | `nil` |\<newline>'' @
     ''| functions | `nil` |\<newline>'' @
     ''\<newline>'' @
     ''### Design Rationale: Zero Values\<newline>'' @
     ''\<newline>'' @
     ''**Why zero values matter:**\<newline>'' @
     ''\<newline>'' @
     ''1. **No undefined behavior**:\<newline>'' @
     ''```cpp\<newline>'' @
     ''// C++:\<newline>'' @
     ''int x;  // Undefined!\<newline>'' @
     ''if (x > 0) {  // Undefined behavior\<newline>'' @
     ''}\<newline>'' @
     ''```\<newline>'' @
     ''\<newline>'' @
     ''```go\<newline>'' @
     ''// Go:\<newline>'' @
     ''var x int  // Always 0\<newline>'' @
     ''if x > 0 {  // Well-defined: false\<newline>'' @
     ''}\<newline>'' @
     ''```\<newline>'' @
     ''\<newline>'' @
     ''2. **Useful defaults**:\<newline>'' @
     ''```go\<newline>'' @
     ''type Counter struct {\<newline>'' @
     ''    count int  // Starts at 0 automatically\<newline>'' @
     ''}\<newline>'' @
     ''\<newline>'' @
     ''c := Counter{}  // No constructor needed\<newline>'' @
     ''c.count++       // Now 1\<newline>'' @
     ''```\<newline>'' @
     ''\<newline>'' @
     ''3. **Safe nil checking**:\<newline>'' @
     ''```go\<newline>'' @
     ''var slice []int  // nil slice\<newline>'' @
     ''len(slice)       // 0 (safe!)\<newline>'' @
     ''slice = append(slice, 1)  // Works!\<newline>'' @
     ''\<newline>'' @
     ''// vs C++:\<newline>'' @
     ''std::vector<int>* vec;  // Uninitialized pointer\<newline>'' @
     ''vec->size();  // CRASH!\<newline>'' @
     ''```\<newline>'' @
     ''\<newline>'' @
     ''4. **Simplifies code**:\<newline>'' @
     ''```go\<newline>'' @
     ''// No need for explicit initialization:\<newline>'' @
     ''var buffer bytes.Buffer\<newline>'' @
     ''buffer.WriteString("hello")  // Just works\<newline>'' @
     ''\<newline>'' @
     ''// vs C++:\<newline>'' @
     ''std::stringstream buffer;  // Must construct\<newline>'' @
     ''buffer << "hello";\<newline>'' @
     ''```\<newline>'' @
     ''\<newline>'' @
     ''## Type Inference\<newline>'' @
     ''\<newline>'' @
     ''### Go's Type Inference\<newline>'' @
     ''\<newline>'' @
     ''```go\<newline>'' @
     ''// Infers int:\<newline>'' @
     ''x := 42\<newline>'' @
     ''\<newline>'' @
     ''// Infers float64:\<newline>'' @
     ''y := 3.14\<newline>'' @
     ''\<newline>'' @
     ''// Infers string:\<newline>'' @
     ''s := "hello"\<newline>'' @
     ''\<newline>'' @
     ''// Infers from function:\<newline>'' @
     ''result := compute()  // Type of compute()'s return\<newline>'' @
     ''\<newline>'' @
     ''// Infers complex128:\<newline>'' @
     ''c := 1 + 2i\<newline>'' @
     ''```\<newline>'' @
     ''\<newline>'' @
     ''**Rules:**\<newline>'' @
     ''- Untyped int literal '' @ [CHR 0xE2, CHR 0x86, CHR 0x92] @ '' `int`\<newline>'' @
     ''- Untyped float literal '' @ [CHR 0xE2, CHR 0x86, CHR 0x92] @ '' `float64`\<newline>'' @
     ''- Untyped complex literal '' @ [CHR 0xE2, CHR 0x86, CHR 0x92] @ '' `complex128`\<newline>'' @
     ''- Untyped string literal '' @ [CHR 0xE2, CHR 0x86, CHR 0x92] @ '' `string`\<newline>'' @
     ''\<newline>'' @
     ''### Controlling Inferred Type\<newline>'' @
     ''\<newline>'' @
     ''```go\<newline>'' @
     ''// Want int32, not int:\<newline>'' @
     ''var x int32 = 42\<newline>'' @
     ''\<newline>'' @
     ''// Want float32, not float64:\<newline>'' @
     ''var f float32 = 3.14\<newline>'' @
     ''\<newline>'' @
     ''// Explicit conversion:\<newline>'' @
     ''x := int32(42)\<newline>'' @
     ''f := float32(3.14)\<newline>'' @
     ''```\<newline>'' @
     ''\<newline>'' @
     ''## Type Conversion\<newline>'' @
     ''\<newline>'' @
     ''### Go's Explicit Conversions\<newline>'' @
     ''\<newline>'' @
     ''```go\<newline>'' @
     ''var i int = 42\<newline>'' @
     ''var f float64 = float64(i)  // Must convert\<newline>'' @
     ''\<newline>'' @
     ''var x int32 = 100\<newline>'' @
     ''var y int64 = int64(x)  // Even between int types!\<newline>'' @
     ''\<newline>'' @
     ''// Truncation is explicit:\<newline>'' @
     ''var f64 float64 = 3.14\<newline>'' @
     ''var i int = int(f64)  // i = 3, explicit truncation\<newline>'' @
     ''```\<newline>'' @
     ''\<newline>'' @
     ''### Design Rationale: Explicit Conversions\<newline>'' @
     ''\<newline>'' @
     ''**Why Go requires explicit conversions:**\<newline>'' @
     ''\<newline>'' @
     ''1. **No surprises**:\<newline>'' @
     ''```cpp\<newline>'' @
     ''// C++:\<newline>'' @
     ''unsigned u = 10;\<newline>'' @
     ''int i = -5;\<newline>'' @
     ''if (u < i) {  // Always false! i converted to unsigned\<newline>'' @
     ''    // Surprise behavior\<newline>'' @
     ''}\<newline>'' @
     ''```\<newline>'' @
     ''\<newline>'' @
     ''```go\<newline>'' @
     ''// Go:\<newline>'' @
     ''var u uint = 10\<newline>'' @
     ''var i int = -5\<newline>'' @
     ''// if u < i {  // Compile error\<newline>'' @
     ''if int(u) < i {  // Explicit: you know what happens\<newline>'' @
     ''}\<newline>'' @
     ''```\<newline>'' @
     ''\<newline>'' @
     ''2. **Prevents bugs**:\<newline>'' @
     ''```cpp\<newline>'' @
     ''// C++:\<newline>'' @
     ''double d = 3.14159;\<newline>'' @
     ''int i = d;  // Silent truncation, data loss\<newline>'' @
     ''```\<newline>'' @
     ''\<newline>'' @
     ''```go\<newline>'' @
     ''// Go:\<newline>'' @
     ''var d float64 = 3.14159\<newline>'' @
     ''var i int = int(d)  // Explicit: "I know I'm losing precision"\<newline>'' @
     ''```\<newline>'' @
     ''\<newline>'' @
     ''3. **Cross-platform consistency**:\<newline>'' @
     ''```go\<newline>'' @
     ''var i32 int32 = 42\<newline>'' @
     ''var i64 int64 = int64(i32)  // Same on all platforms\<newline>'' @
     ''\<newline>'' @
     ''// C++ int size varies by platform\<newline>'' @
     ''```\<newline>'' @
     ''\<newline>'' @
     ''## String Internals\<newline>'' @
     ''\<newline>'' @
     ''### How Strings Work\<newline>'' @
     ''\<newline>'' @
     ''```go\<newline>'' @
     ''type stringStruct struct {\<newline>'' @
     ''    ptr *byte  // Pointer to data\<newline>'' @
     ''    len int    // Length in bytes\<newline>'' @
     ''}\<newline>'' @
     ''```\<newline>'' @
     ''\<newline>'' @
     ''**String slicing:**\<newline>'' @
     ''```go\<newline>'' @
     ''s := "hello world"\<newline>'' @
     ''sub := s[0:5]  // "hello"\<newline>'' @
     ''\<newline>'' @
     ''// sub shares memory with s:\<newline>'' @
     ''// sub.ptr points into s's data\<newline>'' @
     ''// No copying!\<newline>'' @
     ''```\<newline>'' @
     ''\<newline>'' @
     ''### Strings vs Byte Slices\<newline>'' @
     ''\<newline>'' @
     ''```go\<newline>'' @
     ''s := "hello"\<newline>'' @
     ''\<newline>'' @
     ''// Convert to bytes (copies data):\<newline>'' @
     ''b := []byte(s)\<newline>'' @
     ''b[0] = 'H'  // Modify byte slice\<newline>'' @
     ''\<newline>'' @
     ''// Convert back (copies data):\<newline>'' @
     ''s2 := string(b)  // "Hello"\<newline>'' @
     ''\<newline>'' @
     ''// Original unchanged:\<newline>'' @
     ''fmt.Println(s)  // "hello"\<newline>'' @
     ''```\<newline>'' @
     ''\<newline>'' @
     ''### UTF-8 Encoding\<newline>'' @
     ''\<newline>'' @
     ''**Go strings are UTF-8 byte sequences:**\<newline>'' @
     ''\<newline>'' @
     ''```go\<newline>'' @
     ''s := "Hello, '' @ [CHR 0xE4, CHR 0xB8, CHR 0x96, CHR 0xE7, CHR 0x95, CHR 0x8C] @ ''"\<newline>'' @
     ''\<newline>'' @
     ''// Length in bytes:\<newline>'' @
     ''len(s)  // 13 (not 9!)\<newline>'' @
     ''\<newline>'' @
     ''// Iterate bytes:\<newline>'' @
     ''for i := 0; i < len(s); i++ {\<newline>'' @
     ''    fmt.Printf("%x ", s[i])\<newline>'' @
     ''}\<newline>'' @
     ''\<newline>'' @
     ''// Iterate runes (Unicode code points):\<newline>'' @
     ''for i, r := range s {\<newline>'' @
     ''    fmt.Printf("%d: %c\<newline>'' @
     ''", i, r)\<newline>'' @
     ''}\<newline>'' @
     ''```\<newline>'' @
     ''\<newline>'' @
     ''### Design Rationale: UTF-8\<newline>'' @
     ''\<newline>'' @
     ''**Why Go chose UTF-8:**\<newline>'' @
     ''\<newline>'' @
     ''1. **ASCII compatible**: ASCII strings work unchanged\<newline>'' @
     ''2. **Space efficient**: Common chars use 1 byte\<newline>'' @
     ''3. **Self-synchronizing**: Can find character boundaries\<newline>'' @
     ''4. **No BOM needed**: Clear encoding\<newline>'' @
     ''\<newline>'' @
     ''**vs C++:**\<newline>'' @
     ''```cpp\<newline>'' @
     ''// C++:\<newline>'' @
     ''std::string s = "hello";     // Bytes\<newline>'' @
     ''std::wstring ws = L"hello";  // Wide chars (16 or 32 bit)\<newline>'' @
     ''std::u16string u16 = u"hello";  // UTF-16\<newline>'' @
     ''std::u32string u32 = U"hello";  // UTF-32\<newline>'' @
     ''\<newline>'' @
     ''// Go: Just one string type, always UTF-8\<newline>'' @
     ''```\<newline>'' @
     ''\<newline>'' @
     ''## Summary\<newline>'' @
     ''\<newline>'' @
     ''**Key differences from C/C++:**\<newline>'' @
     ''\<newline>'' @
     ''1. **Exact-size types**: int8/int16/int32/int64 always same size\<newline>'' @
     ''2. **Zero values**: Everything initialized automatically\<newline>'' @
     ''3. **Explicit conversions**: No implicit type conversions\<newline>'' @
     ''4. **Immutable strings**: Thread-safe by default\<newline>'' @
     ''5. **Built-in complex numbers**: First-class support\<newline>'' @
     ''6. **Strict booleans**: No bool/int conversions\<newline>'' @
     ''7. **UTF-8 strings**: Unicode by default\<newline>'' @
     ''\<newline>'' @
     ''**Design philosophy:**\<newline>'' @
     ''- **Safety over convenience**: Catch errors at compile time\<newline>'' @
     ''- **Simplicity over features**: Fewer types, clearer code\<newline>'' @
     ''- **Predictability**: Same behavior on all platforms\<newline>'' @
     ''- **Modern defaults**: UTF-8, garbage collection, zero initialization\<newline>'' @
     ''\<newline>'' @
     ''Next: Operators and expressions with Go's design choices explained.\<newline>''\<close>

definition TOPIC_02_BASIC_EXAMPLE :: string where
  \<open>TOPIC_02_BASIC_EXAMPLE =
     ''package main\<newline>'' @
     ''\<newline>'' @
     ''import "fmt"\<newline>'' @
     ''\<newline>'' @
     ''func main() {\<newline>'' @
     ''    // Integer types\<newline>'' @
     ''    var i8 int8 = 127\<newline>'' @
     ''    var i16 int16 = 32767\<newline>'' @
     ''    var i32 int32 = 2147483647\<newline>'' @
     ''    var i64 int64 = 9223372036854775807\<newline>'' @
     ''    \<newline>'' @
     ''    fmt.Printf("int8:  %d'' @ [CHR 0x5C] @ ''n", i8)\<newline>'' @
     ''    fmt.Printf("int16: %d'' @ [CHR 0x5C] @ ''n", i16)\<newline>'' @
     ''    fmt.Printf("int32: %d'' @ [CHR 0x5C] @ ''n", i32)\<newline>'' @
     ''    fmt.Printf("int64: %d'' @ [CHR 0x5C] @ ''n", i64)\<newline>'' @
     ''    \<newline>'' @
     ''    // Zero values\<newline>'' @
     ''    var zeroInt int\<newline>'' @
     ''    var zeroFloat float64\<newline>'' @
     ''    var zeroString string\<newline>'' @
     ''    var zeroBool bool\<newline>'' @
     ''    \<newline>'' @
     ''    fmt.Printf("'' @ [CHR 0x5C] @ ''nZero values:'' @ [CHR 0x5C] @ ''n")\<newline>'' @
     ''    fmt.Printf("int:     %d'' @ [CHR 0x5C] @ ''n", zeroInt)\<newline>'' @
     ''    fmt.Printf("float64: %f'' @ [CHR 0x5C] @ ''n", zeroFloat)\<newline>'' @
     ''    fmt.Printf("string:  '%s'' @ [CHR 0x27, CHR 0x5C] @ ''n", zeroString)\<newline>'' @
     ''    fmt.Printf("bool:    %t'' @ [CHR 0x5C] @ ''n", zeroBool)\<newline>'' @
     ''    \<newline>'' @
     ''    // Type inference\<newline>'' @
     ''    x := 42\<newline>'' @
     ''    y := 3.14\<newline>'' @
     ''    s := "hello"\<newline>'' @
     ''    \<newline>'' @
     ''    fmt.Printf("'' @ [CHR 0x5C] @ ''nInferred types:'' @ [CHR 0x5C] @ ''n")\<newline>'' @
     ''    fmt.Printf("x: %T'' @ [CHR 0x5C] @ ''n", x)\<newline>'' @
     ''    fmt.Printf("y: %T'' @ [CHR 0x5C] @ ''n", y)\<newline>'' @
     ''    fmt.Printf("s: %T'' @ [CHR 0x5C] @ ''n", s)\<newline>'' @
     ''}\<newline>''\<close>

definition CREATE_FULL_THEORY_script :: "world \<Rightarrow> process" where
  "CREATE_FULL_THEORY_script w =
     (let w1 = print ''Generating Topic 02: Data Types and Variables...'' w in
      case CREATE_FULL_THEORY_write_file
             (BASE_PATH @ ''/02_data_types_and_variables/basic/theory.md'') TOPIC_02_BASIC w1 of
        Raises e w2 \<Rightarrow> Uncaught e w2
      | Returns u w2 \<Rightarrow>
          (case CREATE_FULL_THEORY_write_file
                  (BASE_PATH @ ''/02_data_types_and_variables/basic/examples/types.go'')
                  TOPIC_02_BASIC_EXAMPLE w2 of
             Raises e w3 \<Rightarrow> Uncaught e w3
           | Returns u w3 \<Rightarrow>
               Exited 0 (print_lines
                 [[CHR 0x5C] @ ''nTheory generation would continue for all 20 topics...'',
                  ''Each with comprehensive C/C++ comparisons and design rationale.'',
                  ''Total would be ~100,000+ lines of detailed theory.''] w3)))"

section \<open>Scripts that only print, and the status scan of FINAL\_GENERATOR.py\<close>

lemma print_lines_stdout: "print_lines ls w = w\<lparr>stdout := stdout w @ ls\<rparr>"
  by (induction ls arbitrary: w) (simp_all add: print_lines_def print_def)

text \<open>
  C9. Run as scripts, GENERATE\_ALL\_THEORIES.py and generate\_all\_theory\_files.py create
  no file and no directory: neither calls its writer, so for every starting world the
  files, the working directory and the locale are unchanged and the only effect is the
  text printed (five lines, respectively fifteen).
\<close>

theorem scripts_without_writes:
  "GENERATE_ALL_THEORIES_script w =
     Exited 0 (w\<lparr>stdout := stdout w @
       [''\<newline>'' @ replicate 70 CHR ''='',
        ''  GO LANGUAGE THEORY GENERATOR'',
        ''  Comprehensive learning materials with C/C++ comparisons'',
        replicate 70 CHR ''='' @ ''\<newline>'',
        ''Generating detailed theory files for all 20 topics...\<newline>'']\<rparr>) \<and>
   generate_all_theory_files_script w =
     Exited 0 (w\<lparr>stdout := stdout w @
       [replicate 60 CHR ''='',
        ''Go Theory Generator - Creating comprehensive learning materials'',
        replicate 60 CHR ''='',
        ''\<newline>Generating theory files... This will take a moment.\<newline>'',
        ''Total theory files to create: 60'',
        ''Topics: 20'',
        ''Levels per topic: 3'',
        ''\<newline>To generate all files, this script will create detailed content with:'',
        ''- C/C++ comparisons for each concept'',
        ''- Design rationale explanations'',
        ''- Code examples'',
        ''- Performance implications'',
        ''- Best practices'',
        ''\<newline>NOTE: Due to the extensive content, I recommend running topic-specific'',
        ''generation scripts. Would you like to proceed with batch generation?'']\<rparr>)"
proof -
  have d: "str_int 60 = ''60''" "str_int 20 = ''20''" "str_int 3 = ''3''"
    by (simp_all add: str_int_def digits.simps)
  show ?thesis
    unfolding GENERATE_ALL_THEORIES_script_def generate_all_theory_files_script_def
      print_lines_stdout Let_def
    using d by simp
qed

text \<open>
  The count the scan is meant to produce, as a set: the pairs of a topic number and a
  level that some entry of the listing provides.
\<close>

definition counted_pairs :: "world \<Rightarrow> string list \<Rightarrow> (int \<times> string) set" where
  "counted_pairs w entries =
     {(i, level). i \<in> {1..20} \<and> level \<in> {''basic'', ''intermediate'', ''advanced''} \<and>
        (\<exists>topic_dir \<in> set entries.
           startswith topic_dir (format_02d i @ ''_'') \<and>
           exists w (join topic_dir [level, ''theory.md'']))}"

text \<open>The same condition as a predicate on one pair, for the proofs about the scan.\<close>

definition has_theory :: "world \<Rightarrow> string list \<Rightarrow> int \<times> string \<Rightarrow> bool" where
  "has_theory w entries = (\<lambda>(i, level).
     \<exists>topic_dir \<in> set entries.
        startswith topic_dir (format_02d i @ ''_'') \<and>
        exists w (join topic_dir [level, ''theory.md'']))"

lemma count_entries_eq:
  "count_entries w i level entries n = n + (if has_theory w entries (i, level) then 1 else 0)"
  by (induction entries) (auto simp: has_theory_def Let_def)

lemma count_levels_eq:
  assumes "listdir w ''.'' = Inr entries"
  shows "count_levels w i levels n =
    Inr (n + int (length (filter (has_theory w entries) (map (Pair i) levels))))"
  using assms by (induction levels arbitrary: n) (simp_all add: count_entries_eq)

lemma count_topics_eq:
  assumes "listdir w ''.'' = Inr entries"
  shows "count_topics w is n =
    Inr (n + int (length (filter (has_theory w entries)
       (List.product is [''basic'', ''intermediate'', ''advanced'']))))"
proof (induction "is" arbitrary: n)
  case Nil
  then show ?case by simp
next
  case (Cons i "is")
  show ?case
    by (simp only: count_topics.simps count_levels_eq [OF assms] sum.case Cons.IH
        product.simps filter_append length_append) simp
qed

lemma counted_pairs_card:
  "card (counted_pairs w entries) =
     length (filter (has_theory w entries)
       (List.product [1..20] [''basic'', ''intermediate'', ''advanced'']))"
proof -
  let ?ps = "List.product [1..20::int] [''basic'', ''intermediate'', ''advanced'']"
  have "distinct ?ps" by (intro distinct_product) simp_all
  then have "distinct (filter (has_theory w entries) ?ps)" by simp
  moreover have "set (filter (has_theory w entries) ?ps) = counted_pairs w entries"
    by (auto simp: counted_pairs_def has_theory_def)
  ultimately show ?thesis using distinct_card by metis
qed

lemma counted_pairs_le: "card (counted_pairs w entries) \<le> 60"
proof -
  have "length (List.product [1..20::int] [''basic'', ''intermediate'', ''advanced'']) = 60"
    by simp
  then show ?thesis
    unfolding counted_pairs_card
    using length_filter_le [of "has_theory w entries"
        "List.product [1..20::int] [''basic'', ''intermediate'', ''advanced'']"]
    by simp
qed

lemma chdir_Returns:
  assumes "chdir path w = Returns u w'"
  shows "\<exists>d. w' = w\<lparr>cwd := d\<rparr> \<and> lookup w d = Some Dir"
  using assms by (auto simp: chdir_def split: sum.splits option.splits node.splits)

lemma listdir_dot:
  assumes "lookup w (cwd w) = Some Dir"
  shows "listdir w ''.'' =
    Inr (remdups (map last (filter (\<lambda>p. p \<noteq> [] \<and> butlast p = cwd w) (map fst (files w)))))"
  using assms
  by (simp add: listdir_def resolve_def start_dir_def startswith_def)

text \<open>The names in the working directory, as \<open>os.listdir('.')\<close> returns them.\<close>

definition entries_of :: "world \<Rightarrow> string list" where
  "entries_of w = remdups (map last (filter (\<lambda>p. p \<noteq> [] \<and> butlast p = cwd w) (map fst (files w))))"

lemma listdir_after_chdir:
  assumes "chdir path w = Returns u w'"
  shows "listdir w' ''.'' = Inr (entries_of w')"
proof -
  from chdir_Returns [OF assms] obtain d where "w' = w\<lparr>cwd := d\<rparr>" "lookup w d = Some Dir"
    by blast
  then have "lookup w' (cwd w') = Some Dir" by (simp add: lookup_def)
  then show ?thesis unfolding entries_of_def by (rule listdir_dot)
qed

lemma main_after_chdir:
  assumes "chdir (dirname (abspath (print_lines banner_lines w) script_file))
             (print_lines banner_lines w) = Returns u w2"
  shows "count_topics w2 [1..20] 0 = Inr (int (card (counted_pairs w2 (entries_of w2))))"
    and "main script_file imp w =
      main_generate imp (print_lines (status_lines (int (card (counted_pairs w2 (entries_of w2))))) w2)"
proof -
  show c: "count_topics w2 [1..20] 0 = Inr (int (card (counted_pairs w2 (entries_of w2))))"
    by (simp add: count_topics_eq [OF listdir_after_chdir [OF assms]] counted_pairs_card)
  show "main script_file imp w =
      main_generate imp (print_lines (status_lines (int (card (counted_pairs w2 (entries_of w2))))) w2)"
    unfolding main_def Let_def using assms c by (cases u) simp
qed


text \<open>
  Sample environments: a script directory \<open>/repo\<close> with one theory file; the sibling
  module missing, and present with a generator that does nothing; a file system where
  \<open>/media\<close> is a regular file; and an empty file system.
\<close>

definition demo_world :: world where
  "demo_world =
     \<lparr>files = [([], Dir),
               ([''repo''], Dir),
               ([''repo'', ''01_basics_and_syntax''], Dir),
               ([''repo'', ''01_basics_and_syntax'', ''basic''], Dir),
               ([''repo'', ''01_basics_and_syntax'', ''basic'', ''theory.md''], File ''# Basics'')],
      cwd = [],
      stdout = [],
      locale_encoding = UTF_8\<rparr>"

definition module_missing :: importer where
  "module_missing w = Raises ModuleNotFoundError w"



lemma demo_base: "dirname (abspath (print_lines banner_lines demo_world) ''/repo/FINAL_GENERATOR.py'') = ''/repo''"
  by (simp add: abspath_def isabs_def startswith_def normpath_def splitroot_def
      normpath_step_def dirname_def rfind_def rstrip_def Let_def)

lemma demo_chdir:
  "chdir ''/repo'' (print_lines banner_lines demo_world) =
     Returns () (demo_world\<lparr>cwd := [''repo''], stdout := banner_lines\<rparr>)"
  by (simp add: chdir_def resolve_def start_dir_def startswith_def lookup_def demo_world_def
      print_lines_stdout)

lemma demo_count:
  "count_topics (demo_world\<lparr>cwd := [''repo''], stdout := banner_lines\<rparr>) [1..20] 0 = Inr 1"
  by code_simp



definition root_world :: world where
  "root_world = \<lparr>files = [([], Dir)], cwd = [], stdout = [], locale_encoding = UTF_8\<rparr>"

lemma chdir_stdout:
  assumes "chdir path w = Returns u w'"
  shows "stdout w' = stdout w"
  using chdir_Returns [OF assms] by auto

lemma demo_count_card:
  "card (counted_pairs (demo_world\<lparr>cwd := [''repo''], stdout := banner_lines\<rparr>)
     (entries_of (demo_world\<lparr>cwd := [''repo''], stdout := banner_lines\<rparr>))) = 1"
  using main_after_chdir(1) [of demo_world "''/repo/FINAL_GENERATOR.py''" "()"
      "demo_world\<lparr>cwd := [''repo''], stdout := banner_lines\<rparr>"]
    demo_base demo_chdir demo_count
  by simp

text \<open>
  C2. Once \<open>main\<close> of FINAL\_GENERATOR.py has changed into the script's directory, the
  scan counts the pairs of a topic number in 1..20 and a level for which some entry of
  the directory starts with the two-digit prefix and has \<open>level/theory.md\<close>, each pair
  once; the count is between 0 and 60, the remaining count is not negative, and the two
  status lines show both.
\<close>

theorem status_scan_counts:
  assumes "chdir (dirname (abspath (print_lines banner_lines w) script_file))
             (print_lines banner_lines w) = Returns u w2"
  shows "listdir w2 ''.'' = Inr (entries_of w2) \<and>
    count_topics w2 [1..20] 0 = Inr (int (card (counted_pairs w2 (entries_of w2)))) \<and>
    card (counted_pairs w2 (entries_of w2)) \<le> 60 \<and>
    (0::int) \<le> 60 - int (card (counted_pairs w2 (entries_of w2))) \<and>
    main script_file imp w =
      main_generate imp
        (w2\<lparr>stdout := stdout w @ banner_lines @
           [''Status: '' @ str_int (int (card (counted_pairs w2 (entries_of w2)))) @
              ''/60 theory files exist'',
            ''Generating '' @ str_int (60 - int (card (counted_pairs w2 (entries_of w2)))) @
              '' remaining files...'',
            []]\<rparr>)"
proof -
  let ?n = "card (counted_pairs w2 (entries_of w2))"
  have le: "?n \<le> 60" by (rule counted_pairs_le)
  have out: "stdout w2 = stdout w @ banner_lines"
    using chdir_stdout [OF assms] by (simp add: print_lines_stdout)
  have "main script_file imp w = main_generate imp (print_lines (status_lines (int ?n)) w2)"
    by (rule main_after_chdir(2) [OF assms])
  then have m: "main script_file imp w =
      main_generate imp (w2\<lparr>stdout := stdout w @ banner_lines @ status_lines (int ?n)\<rparr>)"
    by (simp add: print_lines_stdout out)
  show ?thesis
    using listdir_after_chdir [OF assms] main_after_chdir(1) [OF assms] le m
    by (simp add: status_lines_def)
qed

text \<open>A directory with one theory file: the scan counts 1 and reports 59 remaining.\<close>

theorem status_scan_counts_witness:
  "chdir (dirname (abspath (print_lines banner_lines demo_world) ''/repo/FINAL_GENERATOR.py''))
      (print_lines banner_lines demo_world) =
     Returns () (demo_world\<lparr>cwd := [''repo''], stdout := banner_lines\<rparr>) \<and>
   count_topics (demo_world\<lparr>cwd := [''repo''], stdout := banner_lines\<rparr>) [1..20] 0 = Inr 1 \<and>
   main ''/repo/FINAL_GENERATOR.py'' module_missing demo_world =
     Raises ModuleNotFoundError
       (demo_world\<lparr>cwd := [''repo''],
          stdout := banner_lines @
            [''Status: 1/60 theory files exist'', ''Generating 59 remaining files...'', []]\<rparr>)"
proof -
  have c: "chdir (dirname (abspath (print_lines banner_lines demo_world) ''/repo/FINAL_GENERATOR.py''))
      (print_lines banner_lines demo_world) =
     Returns () (demo_world\<lparr>cwd := [''repo''], stdout := banner_lines\<rparr>)"
    by (simp only: demo_base demo_chdir)
  have s: "str_int 1 = ''1''" "str_int 59 = ''59''"
    by (simp_all add: str_int_def digits.simps)
  have e: "stdout demo_world = []" by (simp add: demo_world_def)
  from status_scan_counts [OF c, of module_missing] show ?thesis
    using c s e by (simp add: demo_count_card main_generate_def module_missing_def)
qed



section \<open>The file-writing helpers\<close>











text \<open>The world after the directories are made and the file is written.\<close>

definition after_write :: "world \<Rightarrow> fpath \<Rightarrow> string list \<Rightarrow> string \<Rightarrow> string \<Rightarrow> world" where
  "after_write w base ds f bytes =
     w\<lparr>files := AList.update (base @ ds @ [f]) (File bytes)
          (files w @ map (\<lambda>p. (p, Dir)) (missing_dirs w base ds))\<rparr>"


lemma after_write_fields [simp]:
  "cwd (after_write w base ds f bytes) = cwd w"
  "stdout (after_write w base ds f bytes) = stdout w"
  "locale_encoding (after_write w base ds f bytes) = locale_encoding w"
  by (simp_all add: after_write_def)

lemma print_fields [simp]:
  "stdout (print msg w) = stdout w @ [msg]" "cwd (print msg w) = cwd w"
  "locale_encoding (print msg w) = locale_encoding w" "files (print msg w) = files w"
  "lookup (print msg w) q = lookup w q"
  by (simp_all add: print_def lookup_def)




text \<open>An empty file system under a locale whose encoding is ASCII.\<close>

definition ascii_world :: world where
  "ascii_world = \<lparr>files = [([], Dir)], cwd = [], stdout = [], locale_encoding = ASCII\<rparr>"




section \<open>Exceptions at the top level of the scripts\<close>












section \<open>generate\_comprehensive\_theory.py: the directory structure\<close>









definition made :: "world \<Rightarrow> string list \<Rightarrow> world" where
  "made w cs = with_dirs w (missing_dirs w [] cs)"


lemma made_fields [simp]:
  "cwd (made w cs) = cwd w" "stdout (made w cs) = stdout w"
  "locale_encoding (made w cs) = locale_encoding w"
  by (simp_all add: made_def)








definition ascii_only :: "string \<Rightarrow> bool" where
  "ascii_only s = list_all (\<lambda>c. (of_char c :: nat) < 128) s"




text \<open>
  What the table says about a topic, for the statement of the result: its fields as
  text, its directory name, whether a level is wanted, and the locations the loop
  body touches below the names \<open>B\<close> of the base path.
\<close>

definition field :: "pydict \<Rightarrow> string \<Rightarrow> string" where
  "field t k = (case map_of t k of Some v \<Rightarrow> format_val v | None \<Rightarrow> [])"

definition topic_dir :: "pydict \<Rightarrow> string" where
  "topic_dir t = field t ''num'' @ ''_'' @ field t ''name''"























lemma lookup_print_lines [simp]: "lookup (print_lines ls w) q = lookup w q"
  by (simp add: print_lines_stdout lookup_def)






section \<open>CREATE\_FULL\_THEORY.py: the bytes written\<close>

text \<open>
  \<open>write_file\<close> of this script opens its file with \<open>open(path, 'w')\<close> and names no
  encoding, so the text is encoded with the locale's encoding; the helpers of the other
  scripts pass \<open>encoding='utf-8'\<close>. \<open>TOPIC_02_BASIC\<close> contains characters outside ASCII
  (an arrow, U+2192, is the first), so what reaches the file depends on the locale. The
  codec \<open>ASCII\<close> stands for any locale encoding that cannot encode them.
\<close>

lemma not_all_here: "\<not> P c \<Longrightarrow> \<not> list_all P ((c # cs) @ ys)"
  by simp

lemma not_all_skip: "\<not> list_all P ys \<Longrightarrow> \<not> list_all P (xs @ ys)"
  by simp

lemma TOPIC_02_BASIC_not_ascii: "\<not> ascii_only TOPIC_02_BASIC"
  unfolding ascii_only_def TOPIC_02_BASIC_def
  by ((rule not_all_here, (simp; fail)) | rule not_all_skip)+

text \<open>
  The directories of topic 02 below the base path, the two files the script writes, and
  the worlds the two runs end in.
\<close>

definition topic_02_dirs :: "(fpath \<times> node) list" where
  "topic_02_dirs =
     [([], Dir),
      ([''media''], Dir),
      ([''media'', ''usb''], Dir),
      ([''media'', ''usb'', ''anrai''], Dir),
      ([''media'', ''usb'', ''anrai'', ''golang''], Dir),
      ([''media'', ''usb'', ''anrai'', ''golang'', ''go_theory''], Dir),
      ([''media'', ''usb'', ''anrai'', ''golang'', ''go_theory'',
        ''02_data_types_and_variables''], Dir),
      ([''media'', ''usb'', ''anrai'', ''golang'', ''go_theory'',
        ''02_data_types_and_variables'', ''basic''], Dir)]"

definition theory_md :: fpath where
  "theory_md = [''media'', ''usb'', ''anrai'', ''golang'', ''go_theory'',
     ''02_data_types_and_variables'', ''basic'', ''theory.md'']"

definition types_go :: fpath where
  "types_go = [''media'', ''usb'', ''anrai'', ''golang'', ''go_theory'',
     ''02_data_types_and_variables'', ''basic'', ''examples'', ''types.go'']"

definition utf8_run :: "string \<Rightarrow> string \<Rightarrow> world" where
  "utf8_run c c' =
     \<lparr>files = topic_02_dirs @
        [(theory_md, File c),
         ([''media'', ''usb'', ''anrai'', ''golang'', ''go_theory'',
           ''02_data_types_and_variables'', ''basic'', ''examples''], Dir),
         (types_go, File c')],
      cwd = [],
      stdout =
        [''Generating Topic 02: Data Types and Variables...'',
         ''Created: /media/usb/anrai/golang/go_theory/02_data_types_and_variables/basic/theory.md'',
         ''Created: /media/usb/anrai/golang/go_theory/02_data_types_and_variables/basic/examples/types.go''],
      locale_encoding = UTF_8\<rparr>"

definition ascii_run :: world where
  "ascii_run =
     \<lparr>files = topic_02_dirs @ [(theory_md, File [])],
      cwd = [],
      stdout = [''Generating Topic 02: Data Types and Variables...''],
      locale_encoding = ASCII\<rparr>"

lemma utf8_first_write:
  "CREATE_FULL_THEORY_write_file (BASE_PATH @ ''/02_data_types_and_variables/basic/theory.md'') c
     (print ''Generating Topic 02: Data Types and Variables...'' root_world) =
   Returns ()
     \<lparr>files = topic_02_dirs @ [(theory_md, File c)],
      cwd = [],
      stdout =
        [''Generating Topic 02: Data Types and Variables...'',
         ''Created: /media/usb/anrai/golang/go_theory/02_data_types_and_variables/basic/theory.md''],
      locale_encoding = UTF_8\<rparr>"
  by code_simp

lemma utf8_second_write:
  "CREATE_FULL_THEORY_write_file
     (BASE_PATH @ ''/02_data_types_and_variables/basic/examples/types.go'') c'
     \<lparr>files = topic_02_dirs @ [(theory_md, File c)],
      cwd = [],
      stdout =
        [''Generating Topic 02: Data Types and Variables...'',
         ''Created: /media/usb/anrai/golang/go_theory/02_data_types_and_variables/basic/theory.md''],
      locale_encoding = UTF_8\<rparr> =
   Returns () (utf8_run c c')"
  by code_simp

lemma ascii_open:
  "makedirs (dirname (BASE_PATH @ ''/02_data_types_and_variables/basic/theory.md'')) True
     (print ''Generating Topic 02: Data Types and Variables...'' ascii_world) =
   Returns ()
     \<lparr>files = topic_02_dirs, cwd = [],
      stdout = [''Generating Topic 02: Data Types and Variables...''],
      locale_encoding = ASCII\<rparr>"
  "open_w (BASE_PATH @ ''/02_data_types_and_variables/basic/theory.md'')
     \<lparr>files = topic_02_dirs, cwd = [],
      stdout = [''Generating Topic 02: Data Types and Variables...''],
      locale_encoding = ASCII\<rparr> =
   Returns theory_md ascii_run"
  by code_simp+

lemma ascii_first_write:
  assumes "\<not> ascii_only c"
  shows "CREATE_FULL_THEORY_write_file (BASE_PATH @ ''/02_data_types_and_variables/basic/theory.md'') c
     (print ''Generating Topic 02: Data Types and Variables...'' ascii_world) =
   Raises UnicodeEncodeError ascii_run"
proof -
  have l: "locale_encoding ascii_run = ASCII" by (simp add: ascii_run_def)
  from assms have "encode ASCII c = Inl UnicodeEncodeError" by (simp add: ascii_only_def)
  then show ?thesis
    by (simp add: CREATE_FULL_THEORY_write_file_def ascii_open file_write_def l)
qed

text \<open>
  C7 at two environments that differ only in the locale's encoding, both starting from
  an empty file system. With UTF-8 the script ends with status 0 and \<open>theory.md\<close> holds the
  UTF-8 bytes of \<open>TOPIC_02_BASIC\<close>; with ASCII the first \<open>write\<close> raises
  \<open>UnicodeEncodeError\<close>, the script stops there and \<open>theory.md\<close> is left empty. The bytes
  of the generated file are therefore not the same in any two environments.
\<close>

theorem CREATE_FULL_THEORY_bytes_depend_on_locale:
  "ascii_world = root_world\<lparr>locale_encoding := ASCII\<rparr> \<and>
   CREATE_FULL_THEORY_script root_world =
     Exited 0 (print_lines
       [[CHR 0x5C] @ ''nTheory generation would continue for all 20 topics...'',
        ''Each with comprehensive C/C++ comparisons and design rationale.'',
        ''Total would be ~100,000+ lines of detailed theory.'']
       (utf8_run TOPIC_02_BASIC TOPIC_02_BASIC_EXAMPLE)) \<and>
   lookup (utf8_run TOPIC_02_BASIC TOPIC_02_BASIC_EXAMPLE) theory_md = Some (File TOPIC_02_BASIC) \<and>
   CREATE_FULL_THEORY_script ascii_world = Uncaught UnicodeEncodeError ascii_run \<and>
   lookup ascii_run theory_md = Some (File []) \<and>
   TOPIC_02_BASIC \<noteq> []"
proof -
  have 1: "ascii_world = root_world\<lparr>locale_encoding := ASCII\<rparr>"
    by (simp add: ascii_world_def root_world_def)
  have 2: "CREATE_FULL_THEORY_script root_world =
     Exited 0 (print_lines
       [[CHR 0x5C] @ ''nTheory generation would continue for all 20 topics...'',
        ''Each with comprehensive C/C++ comparisons and design rationale.'',
        ''Total would be ~100,000+ lines of detailed theory.'']
       (utf8_run TOPIC_02_BASIC TOPIC_02_BASIC_EXAMPLE))"
    by (simp add: CREATE_FULL_THEORY_script_def utf8_first_write utf8_second_write)
  have 3: "lookup (utf8_run TOPIC_02_BASIC TOPIC_02_BASIC_EXAMPLE) theory_md =
      Some (File TOPIC_02_BASIC)"
    by (simp add: utf8_run_def lookup_def topic_02_dirs_def theory_md_def types_go_def)
  have 4: "CREATE_FULL_THEORY_script ascii_world = Uncaught UnicodeEncodeError ascii_run"
    by (simp add: CREATE_FULL_THEORY_script_def ascii_first_write [OF TOPIC_02_BASIC_not_ascii])
  have 5: "lookup ascii_run theory_md = Some (File [])"
    by (simp add: ascii_run_def lookup_def topic_02_dirs_def theory_md_def)
  have 6: "TOPIC_02_BASIC \<noteq> []"
    using TOPIC_02_BASIC_not_ascii by (auto simp: ascii_only_def)
  from 1 2 3 4 5 6 show ?thesis by blast
qed

end
